theory Spec2Isabelle
  imports Complex_Main
begin

section \<open>JavaScript values and exceptions\<close>

text \<open>
  The pipeline is TypeScript. Every \<^verbatim>\<open>throw\<close> of the source is a value of
  type \<open>thrown\<close>; a function that may throw returns \<open>thrown + 'a\<close> with \<open>Inl\<close> the
  exception. \<open>BVAApiError\<close> (client.ts) and \<open>OpenRouterError\<close> (openrouter.ts) are the
  two error classes of the repository, \<open>JsError\<close> is any other instance of \<open>Error\<close>
  (TypeError, SyntaxError, a driver error), and \<open>NonError\<close> is a thrown value that is
  not an instance of \<open>Error\<close>.
\<close>

datatype thrown =
    BVAApiError string int
  | OpenRouterError string
  | JsError string
  | NonError

fun is_BVAApiError :: "thrown \<Rightarrow> bool" where
  "is_BVAApiError (BVAApiError m c) = True"
| "is_BVAApiError e = False"

text \<open>The idiom \<^verbatim>\<open>error instanceof Error ? error.message : 'Unknown error'\<close>.\<close>

fun message_or_unknown :: "thrown \<Rightarrow> string" where
  "message_or_unknown (BVAApiError m c) = m"
| "message_or_unknown (OpenRouterError m) = m"
| "message_or_unknown (JsError m) = m"
| "message_or_unknown NonError = ''Unknown error''"

text \<open>
  A parsed JSON document. Numbers are rationals (the value a JSON numeral denotes);
  reading a property yields \<open>None\<close> for \<^verbatim>\<open>undefined\<close>.
\<close>

datatype json =
    JNull
  | JBool bool
  | JNum rat
  | JStr string
  | JArr "json list"
  | JObj "(string \<times> json) list"

datatype jsval = Undefined | Val json

text \<open>
  \<^verbatim>\<open>parsed.key\<close>: a TypeError on \<^verbatim>\<open>null\<close>, the member of an object when it has
  one, \<^verbatim>\<open>undefined\<close> otherwise.
\<close>

fun get_property :: "json \<Rightarrow> string \<Rightarrow> thrown + jsval" where
  "get_property JNull k =
     Inl (JsError (''Cannot read properties of null (reading '' @ k @ '')''))"
| "get_property (JObj kvs) k =
     (case map_of kvs k of None \<Rightarrow> Inr Undefined | Some v \<Rightarrow> Inr (Val v))"
| "get_property v k = Inr Undefined"

text \<open>Truthiness of a value, as \<^verbatim>\<open>||\<close> tests it.\<close>

fun truthy :: "jsval \<Rightarrow> bool" where
  "truthy Undefined = False"
| "truthy (Val JNull) = False"
| "truthy (Val (JBool b)) = b"
| "truthy (Val (JNum n)) = (n \<noteq> 0)"
| "truthy (Val (JStr s)) = (s \<noteq> [])"
| "truthy (Val (JArr xs)) = True"
| "truthy (Val (JObj kvs)) = True"

text \<open>
  A value of type \<^verbatim>\<open>number\<close>, as far as the pipeline compares it: a finite value,
  \<^verbatim>\<open>NaN\<close> or one of the infinities. \<open>count_ge n m\<close> is \<^verbatim>\<open>n >= m\<close> for a count
  \<open>n\<close>; every comparison with \<^verbatim>\<open>NaN\<close> is false. \<open>falsy_number\<close> is what
  \<^verbatim>\<open>||\<close> replaces: zero and \<^verbatim>\<open>NaN\<close>.
\<close>

datatype js_number = Finite rat | NaN | PosInfinity | NegInfinity

fun count_ge :: "nat \<Rightarrow> js_number \<Rightarrow> bool" where
  "count_ge n (Finite q) = (of_nat n \<ge> q)"
| "count_ge n NaN = False"
| "count_ge n PosInfinity = False"
| "count_ge n NegInfinity = True"

fun falsy_number :: "js_number \<Rightarrow> bool" where
  "falsy_number (Finite q) = (q = 0)"
| "falsy_number NaN = True"
| "falsy_number m = False"

section \<open>Data model (client.ts, schema.ts)\<close>

datatype decision_type = AMA | Legacy

record BVADecisionSummary =
  s_id :: string
  citation_number :: string
  s_date :: string
  s_type :: decision_type
  docket_numbers :: "string list"
  s_url :: string

record Paragraph =
  p_section :: "string option"
  p_text :: string
  p_order :: int

record BVADecisionDetail = BVADecisionSummary +
  d_paragraphs :: "Paragraph list"
  raw_text :: string
  d_filename :: string
  created_at :: string
  updated_at :: string

record SearchResult =
  r_offset :: int
  r_limit :: int
  has_more :: bool
  r_count :: int
  r_decisions :: "unit BVADecisionSummary_scheme list"

datatype decision_type_filter = FilterAMA | FilterLegacy | FilterAll

datatype sort_order = DateDesc | DateAsc

record SearchParams =
  sp_query :: string
  sp_decision_type :: "decision_type_filter option"
  sp_start_year :: "int option"
  sp_end_year :: "int option"
  sp_sort :: "sort_order option"
  sp_offset :: "int option"
  sp_limit :: "int option"

text \<open>
  A \<^verbatim>\<open>Date\<close> is either \<^verbatim>\<open>new Date(s)\<close> of an upstream string or a reading of the
  clock in milliseconds, \<^verbatim>\<open>new Date()\<close>.
\<close>

datatype js_date = DateOf string | ClockAt nat

text \<open>
  \<open>ParsedDecision\<close> is the insert type without the three outcome columns, and
  \<open>NewDecision\<close> adds them. The parameter is the type of the three timestamps:
  \<open>parseBVADecision\<close> returns a \<open>js_date ParsedDecision\<close>, and a row of the
  \<open>decisions\<close> table is an \<open>int NewDecision\<close>, since a column declared
  \<^verbatim>\<open>integer(..., { mode: 'timestamp' })\<close> holds whole seconds.
\<close>

record 'd ParsedDecision =
  row_id :: string
  citationNumber :: string
  bvaApiId :: string
  decisionDate :: 'd
  decisionType :: decision_type
  docketNumbers :: "string list"
  sourceUrl :: string
  filename :: string
  rawText :: string
  paragraphs :: "Paragraph list"
  sections :: "(string \<times> string) list"
  extractedData :: json
  issues :: json
  boardMemberName :: json
  veteranName :: json
  syncedAt :: 'd
  lastUpdated :: 'd
  indexed :: bool
  embeddingGenerated :: bool

record 'd NewDecision = "'d ParsedDecision" +
  outcome :: json
  outcomeDetails :: json
  outcomeConfidence :: json

record SyncMetadataRow =
  m_id :: string
  lastSyncDate :: int
  totalDecisions :: nat
  lastSyncStatus :: string
  lastSyncError :: "string option"

section \<open>The world outside the process\<close>

text \<open>
  What the upstream service, the generative service, the runtime's JSON parser, the
  clock and the UUID generator answer is a parameter. Each answer may depend on the
  moment of the call (\<open>tick\<close>, which every effect advances), so that an environment
  can change its mind between two calls; an environment with fixed content is one whose
  answers do not depend on the tick. \<open>Date_parse\<close> is \<^verbatim>\<open>Date.parse\<close>, in
  milliseconds, \<open>None\<close> for \<^verbatim>\<open>NaN\<close>. \<open>coerce_text\<close> and \<open>coerce_real\<close> are
  what the database driver and the column's type affinity make of a value that is not
  of the column's type: the value the column then holds, or \<open>None\<close> when the driver
  refuses to bind it.
\<close>

datatype 'a response_body = JsonThrows thrown | JsonData 'a

datatype 'a fetch_outcome =
    FetchThrows thrown
  | Response int string "'a response_body"

datatype qval = QText string | QNumber int

record GenerateOptions =
  g_prompt :: string
  g_temperature :: "rat option"
  g_responseFormat_json :: bool

record env =
  fetch_search :: "nat \<Rightarrow> (string \<times> qval) list \<Rightarrow> SearchResult fetch_outcome"
  fetch_decision :: "nat \<Rightarrow> string \<Rightarrow> BVADecisionDetail fetch_outcome"
  chat_completion :: "nat \<Rightarrow> GenerateOptions \<Rightarrow> thrown + string option"
  JSON_parse :: "string \<Rightarrow> thrown + json"
  Date_parse :: "string \<Rightarrow> int option"
  coerce_text :: "json \<Rightarrow> json option"
  coerce_real :: "json \<Rightarrow> json option"
  clock :: "nat \<Rightarrow> nat"
  randomUUID :: "nat \<Rightarrow> string"

datatype event =
    EvSearch "(string \<times> qval) list"
  | EvGetDecision string
  | EvGenerate string
  | EvFindFirst string
  | EvInsertDecision string
  | EvInsertMetadata
  | EvDelay nat

record world =
  decisions_tbl :: "int NewDecision list"
  sync_metadata_tbl :: "SyncMetadataRow list"
  tick :: nat
  trace :: "event list"

definition effect :: "event \<Rightarrow> world \<Rightarrow> world" where
  "effect e w = w\<lparr>tick := Suc (tick w), trace := trace w @ [e]\<rparr>"

text \<open>\<^verbatim>\<open>new Date()\<close> reads the clock, in milliseconds.\<close>

definition new_Date :: "env \<Rightarrow> world \<Rightarrow> nat \<times> world" where
  "new_Date en w = (clock en (tick w), w\<lparr>tick := Suc (tick w)\<rparr>)"

definition sleep :: "nat \<Rightarrow> world \<Rightarrow> world" where
  "sleep ms w = effect (EvDelay ms) w"

section \<open>Fetch client (client.ts)\<close>

definition response_ok :: "int \<Rightarrow> bool" where
  "response_ok status = (200 \<le> status \<and> status \<le> 299)"

fun decision_type_param :: "decision_type_filter \<Rightarrow> string" where
  "decision_type_param FilterAMA = ''AMA''"
| "decision_type_param FilterLegacy = ''legacy''"
| "decision_type_param FilterAll = ''all''"

fun sort_param :: "sort_order \<Rightarrow> string" where
  "sort_param DateDesc = ''date.desc''"
| "sort_param DateAsc = ''date.asc''"

text \<open>
  The query string of \<open>searchDecisions\<close>: a year or a limit of 0 is falsy and left
  out, an offset is sent whenever it is defined.
\<close>

definition queryParams :: "SearchParams \<Rightarrow> (string \<times> qval) list" where
  "queryParams params =
     [(''query'', QText (sp_query params))]
     @ (case sp_decision_type params of None \<Rightarrow> []
        | Some t \<Rightarrow> [(''decision_type'', QText (decision_type_param t))])
     @ (case sp_start_year params of None \<Rightarrow> []
        | Some y \<Rightarrow> if y \<noteq> 0 then [(''start_year'', QNumber y)] else [])
     @ (case sp_end_year params of None \<Rightarrow> []
        | Some y \<Rightarrow> if y \<noteq> 0 then [(''end_year'', QNumber y)] else [])
     @ (case sp_sort params of None \<Rightarrow> []
        | Some s \<Rightarrow> [(''sort'', QText (sort_param s))])
     @ (case sp_offset params of None \<Rightarrow> []
        | Some off \<Rightarrow> [(''offset'', QNumber off)])
     @ (case sp_limit params of None \<Rightarrow> []
        | Some l \<Rightarrow> if l \<noteq> 0 then [(''limit'', QNumber l)] else [])"

text \<open>
  The \<^verbatim>\<open>catch\<close> block shared by \<open>searchDecisions\<close> and \<open>getDecision\<close>: a
  \<open>BVAApiError\<close> is rethrown, anything else becomes a \<open>BVAApiError\<close> of status 0.
\<close>

definition network_error :: "thrown \<Rightarrow> thrown" where
  "network_error e =
     (if is_BVAApiError e then e
      else BVAApiError (''Network error: '' @ message_or_unknown e) 0)"

definition searchDecisions_result :: "SearchResult fetch_outcome \<Rightarrow> thrown + SearchResult" where
  "searchDecisions_result out =
     (case out of
        FetchThrows e \<Rightarrow> Inl (network_error e)
      | Response status statusText body \<Rightarrow>
          if \<not> response_ok status
          then Inl (network_error (BVAApiError (''API error: '' @ statusText) status))
          else (case body of
                  JsonThrows e \<Rightarrow> Inl (network_error e)
                | JsonData d \<Rightarrow> Inr d))"

definition searchDecisions :: "env \<Rightarrow> SearchParams \<Rightarrow> world \<Rightarrow> (thrown + SearchResult) \<times> world" where
  "searchDecisions en params w =
     (searchDecisions_result (fetch_search en (tick w) (queryParams params)),
      effect (EvSearch (queryParams params)) w)"

definition getDecision_result :: "string \<Rightarrow> BVADecisionDetail fetch_outcome \<Rightarrow> thrown + BVADecisionDetail" where
  "getDecision_result citation out =
     (case out of
        FetchThrows e \<Rightarrow> Inl (network_error e)
      | Response status statusText body \<Rightarrow>
          if \<not> response_ok status
          then (if status = 404
                then Inl (network_error (BVAApiError (''Decision not found: '' @ citation) 404))
                else Inl (network_error (BVAApiError (''API error: '' @ statusText) status)))
          else (case body of
                  JsonThrows e \<Rightarrow> Inl (network_error e)
                | JsonData d \<Rightarrow> Inr d))"

definition getDecision :: "env \<Rightarrow> string \<Rightarrow> world \<Rightarrow> (thrown + BVADecisionDetail) \<times> world" where
  "getDecision en citation w =
     (getDecision_result citation (fetch_decision en (tick w) citation),
      effect (EvGetDecision citation) w)"

text \<open>
  \<open>fetchAllDecisions\<close> is an async generator. \<open>gen_point\<close> is where it is
  suspended: before its first request, or at the \<^verbatim>\<open>yield\<close> of the request made at
  an offset, holding that response's \<open>has_more\<close>. Resuming it runs the rest of the loop
  body (\<open>hasMore\<close>, \<open>offset += limit\<close>, the 500 ms pause when there is more) and then
  the \<^verbatim>\<open>while\<close> loop until the next non-empty page, the end, or a throw.

  The loop runs as long as the upstream answers \<open>has_more\<close>, so it takes fuel: one
  unit for each request, and \<open>None\<close> when the fuel runs out.
\<close>

datatype gen_point = AtStart | AtYield int bool

datatype gen_step =
    Yielded "unit BVADecisionSummary_scheme list" gen_point
  | Returned
  | Threw thrown

fun fetch_loop :: "nat \<Rightarrow> env \<Rightarrow> SearchParams \<Rightarrow> int \<Rightarrow> world \<Rightarrow> (gen_step \<times> world) option" where
  "fetch_loop 0 en params offset w = None"
| "fetch_loop (Suc fuel) en params offset w =
     (case searchDecisions en (params\<lparr>sp_offset := Some offset, sp_limit := Some 100\<rparr>) w of
        (Inl e, w1) \<Rightarrow> Some (Threw e, w1)
      | (Inr result, w1) \<Rightarrow>
          if r_decisions result \<noteq> []
          then Some (Yielded (r_decisions result) (AtYield offset (has_more result)), w1)
          else if has_more result
          then fetch_loop fuel en params (offset + 100) (sleep 500 w1)
          else Some (Returned, w1))"

fun generator_next :: "nat \<Rightarrow> env \<Rightarrow> SearchParams \<Rightarrow> gen_point \<Rightarrow> world \<Rightarrow> (gen_step \<times> world) option" where
  "generator_next fuel en params AtStart w = fetch_loop fuel en params 0 w"
| "generator_next fuel en params (AtYield offset hasMore) w =
     (if hasMore then fetch_loop fuel en params (offset + 100) (sleep 500 w)
      else Some (Returned, w))"

text \<open>
  The generator consumed to its end, as \<^verbatim>\<open>for await (const batch of ...)\<close> with
  an empty body does: the batches it yields, in order, or what it throws.
\<close>

fun fetchAllDecisions ::
  "nat \<Rightarrow> env \<Rightarrow> SearchParams \<Rightarrow> gen_point \<Rightarrow> world \<Rightarrow>
   ((thrown + unit BVADecisionSummary_scheme list list) \<times> world) option" where
  "fetchAllDecisions 0 en params pt w = None"
| "fetchAllDecisions (Suc fuel) en params pt w =
     (case generator_next fuel en params pt w of
        None \<Rightarrow> None
      | Some (Threw e, w1) \<Rightarrow> Some (Inl e, w1)
      | Some (Returned, w1) \<Rightarrow> Some (Inr [], w1)
      | Some (Yielded batch pt1, w1) \<Rightarrow>
          (case fetchAllDecisions fuel en params pt1 w1 of
             None \<Rightarrow> None
           | Some (Inl e, w2) \<Rightarrow> Some (Inl e, w2)
           | Some (Inr batches, w2) \<Rightarrow> Some (Inr (batch # batches), w2)))"

section \<open>Normalizer (parser.ts)\<close>

text \<open>
  A string is the list of the bytes of its UTF-8 encoding. \<open>trim\<close> strips the
  white-space and line-terminator code points of ECMAScript from both ends; each is one
  to three bytes here. \<open>toLowerCase\<close> maps A to Z and leaves every other byte, which
  is what JavaScript does on ASCII text.
\<close>

definition white_space :: "string list" where
  "white_space =
     [[CHR 0x09], [CHR 0x0A], [CHR 0x0B], [CHR 0x0C], [CHR 0x0D], [CHR 0x20],
      [CHR 0xC2, CHR 0xA0], [CHR 0xE1, CHR 0x9A, CHR 0x80],
      [CHR 0xE2, CHR 0x80, CHR 0x80], [CHR 0xE2, CHR 0x80, CHR 0x81],
      [CHR 0xE2, CHR 0x80, CHR 0x82], [CHR 0xE2, CHR 0x80, CHR 0x83],
      [CHR 0xE2, CHR 0x80, CHR 0x84], [CHR 0xE2, CHR 0x80, CHR 0x85],
      [CHR 0xE2, CHR 0x80, CHR 0x86], [CHR 0xE2, CHR 0x80, CHR 0x87],
      [CHR 0xE2, CHR 0x80, CHR 0x88], [CHR 0xE2, CHR 0x80, CHR 0x89],
      [CHR 0xE2, CHR 0x80, CHR 0x8A], [CHR 0xE2, CHR 0x80, CHR 0xA8],
      [CHR 0xE2, CHR 0x80, CHR 0xA9], [CHR 0xE2, CHR 0x80, CHR 0xAF],
      [CHR 0xE2, CHR 0x81, CHR 0x9F], [CHR 0xE3, CHR 0x80, CHR 0x80],
      [CHR 0xEF, CHR 0xBB, CHR 0xBF]]"

fun starts_with :: "string \<Rightarrow> string \<Rightarrow> bool" where
  "starts_with s [] = True"
| "starts_with [] (c # cs) = False"
| "starts_with (a # as) (c # cs) = (a = c \<and> starts_with as cs)"

text \<open>
  \<open>strip_start n seqs s\<close> removes from the front of \<open>s\<close> at most \<open>n\<close> of the byte
  sequences \<open>seqs\<close>; \<open>trimStart\<close> gives it the length of the string, which is enough
  to remove them all.
\<close>

fun strip_start :: "nat \<Rightarrow> string list \<Rightarrow> string \<Rightarrow> string" where
  "strip_start 0 seqs s = s"
| "strip_start (Suc n) seqs s =
     (case find (starts_with s) seqs of
        None \<Rightarrow> s
      | Some q \<Rightarrow> strip_start n seqs (drop (length q) s))"

definition trimStart :: "string \<Rightarrow> string" where
  "trimStart s = strip_start (length s) white_space s"

definition trimEnd :: "string \<Rightarrow> string" where
  "trimEnd s = rev (strip_start (length s) (map rev white_space) (rev s))"

definition trim :: "string \<Rightarrow> string" where
  "trim s = trimEnd (trimStart s)"

definition lower_char :: "char \<Rightarrow> char" where
  "lower_char c =
     (case map_of (zip ''ABCDEFGHIJKLMNOPQRSTUVWXYZ'' ''abcdefghijklmnopqrstuvwxyz'') c of
        None \<Rightarrow> c
      | Some l \<Rightarrow> l)"

definition toLowerCase :: "string \<Rightarrow> string" where
  "toLowerCase s = map lower_char s"

fun includes_str :: "string \<Rightarrow> string \<Rightarrow> bool" where
  "includes_str [] sub = (sub = [])"
| "includes_str (a # as) sub = (starts_with (a # as) sub \<or> includes_str as sub)"

text \<open>
  The \<open>sections\<close> object, a \<^verbatim>\<open>Record<string, string>\<close> created by \<^verbatim>\<open>{}\<close>, is the
  association list of its own properties in creation order; \<open>assign\<close> is
  \<^verbatim>\<open>sections[k] = v\<close>. Reading a name that is not an own property finds the member
  of \<^verbatim>\<open>Object.prototype\<close> of that name, if there is one: \<open>inherited_text\<close> is
  the string that \<^verbatim>\<open>+=\<close> makes of it (the source text of a built-in function, as
  Node prints it). \<^verbatim>\<open>__proto__\<close> is an accessor: reading it gives the prototype,
  and assigning a string to it does nothing.
\<close>

fun assign :: "string \<Rightarrow> string \<Rightarrow> (string \<times> string) list \<Rightarrow> (string \<times> string) list" where
  "assign k v [] = [(k, v)]"
| "assign k v ((k', v') # kvs) =
     (if k = k' then (k, v) # kvs else (k', v') # assign k v kvs)"

definition prototype_functions :: "string list" where
  "prototype_functions =
     [''__defineGetter__'', ''__defineSetter__'', ''hasOwnProperty'', ''__lookupGetter__'',
      ''__lookupSetter__'', ''isPrototypeOf'', ''propertyIsEnumerable'', ''toString'',
      ''valueOf'', ''toLocaleString'']"

definition inherited_text :: "string \<Rightarrow> string option" where
  "inherited_text k =
     (if k = ''constructor'' then Some ''function Object() { [native code] }''
      else if k \<in> set prototype_functions
      then Some (''function '' @ k @ ''() { [native code] }'')
      else None)"

text \<open>\<^verbatim>\<open>para.section || 'content'\<close>: a missing or empty label is \<open>content\<close>.\<close>

definition sectionName :: "Paragraph \<Rightarrow> string" where
  "sectionName para =
     (case p_section para of
        None \<Rightarrow> ''content''
      | Some l \<Rightarrow> if l = [] then ''content'' else l)"

text \<open>
  One round of the loop over the paragraphs: the bucket is created empty when the
  name reads as falsy (no own property and nothing inherited, or an own empty string),
  then the text and a blank line are appended to what the name reads as.
\<close>

definition add_paragraph :: "(string \<times> string) list \<Rightarrow> Paragraph \<Rightarrow> (string \<times> string) list" where
  "add_paragraph secs para =
     (if sectionName para = ''__proto__'' then secs
      else
        (let falsy = (case map_of secs (sectionName para) of
                        None \<Rightarrow> inherited_text (sectionName para) = None
                      | Some v \<Rightarrow> v = []);
             secs1 = (if falsy then assign (sectionName para) [] secs else secs);
             cur = (case map_of secs1 (sectionName para) of
                      None \<Rightarrow> (case inherited_text (sectionName para) of
                                 None \<Rightarrow> []
                               | Some f \<Rightarrow> f)
                    | Some v \<Rightarrow> v)
         in assign (sectionName para) (cur @ p_text para @ [CHR 0x0A, CHR 0x0A]) secs1))"

text \<open>
  The order in which an object lists its own properties: the array indices (the
  decimal numerals below \<open>2^32 - 1\<close>) by value, then the other names as created.
\<close>

definition digit_value :: "char \<Rightarrow> int option" where
  "digit_value c = map_of (zip ''0123456789'' [0, 1, 2, 3, 4, 5, 6, 7, 8, 9]) c"

definition numeral_value :: "string \<Rightarrow> int" where
  "numeral_value k =
     foldl (\<lambda>n c. 10 * n + (case digit_value c of None \<Rightarrow> 0 | Some d \<Rightarrow> d)) 0 k"

definition is_array_index :: "string \<Rightarrow> bool" where
  "is_array_index k =
     (k \<noteq> [] \<and> (\<forall>c \<in> set k. digit_value c \<noteq> None) \<and> (k = ''0'' \<or> hd k \<noteq> CHR ''0'') \<and>
      length k \<le> 10 \<and> numeral_value k < 4294967295)"

definition own_property_order :: "(string \<times> string) list \<Rightarrow> (string \<times> string) list" where
  "own_property_order kvs =
     sort_key (\<lambda>(k, v). numeral_value k) (filter (\<lambda>(k, v). is_array_index k) kvs)
     @ filter (\<lambda>(k, v). \<not> is_array_index k) kvs"

definition organize_sections :: "Paragraph list \<Rightarrow> (string \<times> string) list" where
  "organize_sections ps =
     own_property_order (map (\<lambda>(k, v). (k, trim v)) (foldl add_paragraph [] ps))"

definition parseBVADecision ::
  "env \<Rightarrow> BVADecisionDetail \<Rightarrow> world \<Rightarrow> js_date ParsedDecision \<times> world" where
  "parseBVADecision en apiDecision w =
     (let uuid = randomUUID en (tick w);
          w1 = w\<lparr>tick := Suc (tick w)\<rparr>;
          (synced_at, w2) = new_Date en w1
      in (\<lparr> row_id = uuid,
            citationNumber = citation_number apiDecision,
            bvaApiId = s_id apiDecision,
            decisionDate = DateOf (s_date apiDecision),
            decisionType = s_type apiDecision,
            docketNumbers = docket_numbers apiDecision,
            sourceUrl = s_url apiDecision,
            filename = d_filename apiDecision,
            rawText = raw_text apiDecision,
            paragraphs = d_paragraphs apiDecision,
            sections = organize_sections (d_paragraphs apiDecision),
            extractedData = JNull,
            issues = JNull,
            boardMemberName = JNull,
            veteranName = JNull,
            syncedAt = ClockAt synced_at,
            lastUpdated = DateOf (updated_at apiDecision),
            indexed = False,
            embeddingGenerated = False \<rparr>, w2))"

definition normalizeSectionName :: "string \<Rightarrow> string" where
  "normalizeSectionName sectionName' =
     (let name = trim (toLowerCase sectionName') in
      if includes_str name ''introduction'' \<or> includes_str name ''intro'' then ''introduction''
      else if includes_str name ''finding'' \<or> includes_str name ''fact'' then ''findings_of_fact''
      else if includes_str name ''analysis'' \<or> includes_str name ''discussion'' then ''analysis''
      else if includes_str name ''reason'' \<and> includes_str name ''base'' then ''reasons_and_bases''
      else if includes_str name ''conclusion'' \<or> includes_str name ''order'' then ''conclusion''
      else if includes_str name ''evidence'' then ''evidence''
      else if includes_str name ''procedural'' then ''procedural_history''
      else sectionName')"

section \<open>Generative-text client (openrouter.ts)\<close>

text \<open>
  \<open>generate\<close> returns the content of the first choice, the empty string when there is
  none, and wraps whatever the completion call throws in an \<open>OpenRouterError\<close>.
\<close>

definition generate :: "env \<Rightarrow> GenerateOptions \<Rightarrow> world \<Rightarrow> (thrown + string) \<times> world" where
  "generate en options w =
     ((case chat_completion en (tick w) options of
         Inl e \<Rightarrow> Inl (OpenRouterError (''Generation failed: '' @ message_or_unknown e))
       | Inr content \<Rightarrow> Inr (case content of None \<Rightarrow> [] | Some c \<Rightarrow> c)),
      effect (EvGenerate (g_prompt options)) w)"

section \<open>Outcome classifier (sync.ts, extractOutcome)\<close>

definition nl :: string where
  "nl = [CHR 0x0A]"

definition dq :: string where
  "dq = [CHR 0x22]"

definition outcome_prompt :: "string \<Rightarrow> string \<Rightarrow> string \<Rightarrow> string" where
  "outcome_prompt citation decision_date textExcerpt = concat
     [''Analyze this BVA (Board of Veterans'', [CHR 0x27],
      '' Appeals) decision and determine the outcome.'', nl, nl,
      ''Decision Citation: '', citation, nl,
      ''Decision Date: '', decision_date, nl, nl,
      ''Decision Text (excerpt):'', nl,
      textExcerpt, nl, nl,
      ''Based on the decision text, classify the outcome as ONE of the following:'', nl,
      ''- '', dq, ''Granted'', dq, '' - The veteran'', [CHR 0x27],
      ''s appeal was granted (approved)'', nl,
      ''- '', dq, ''Denied'', dq, '' - The veteran'', [CHR 0x27], ''s appeal was denied'', nl,
      ''- '', dq, ''Remanded'', dq,
      '' - The case was sent back for additional development/evidence'', nl,
      ''- '', dq, ''Mixed'', dq, '' - Some issues granted, some denied/remanded'', nl, nl,
      ''Also provide a confidence score from 0.0 to 1.0.'', nl, nl,
      ''Respond ONLY with valid JSON in this exact format:'', nl,
      ''{'', nl,
      ''  '', dq, ''outcome'', dq, '': '', dq, ''Granted'', dq, '' | '', dq, ''Denied'', dq,
      '' | '', dq, ''Remanded'', dq, '' | '', dq, ''Mixed'', dq, '','', nl,
      ''  '', dq, ''confidence'', dq, '': 0.95,'', nl,
      ''  '', dq, ''reasoning'', dq, '': '', dq,
      ''Brief explanation of why you classified it this way'', dq, nl,
      ''}'']"

record OutcomeResult =
  o_outcome :: jsval
  o_confidence :: jsval

definition unknown_outcome :: OutcomeResult where
  "unknown_outcome = \<lparr>o_outcome = Val (JStr ''Unknown''), o_confidence = Val (JNum 0)\<rparr>"

text \<open>
  What the \<^verbatim>\<open>try\<close> block computes from the model's text: \<open>JSON.parse\<close>, then the two
  property reads, then \<^verbatim>\<open>parsed.confidence || 0.5\<close>.
\<close>

definition read_outcome :: "env \<Rightarrow> string \<Rightarrow> thrown + OutcomeResult" where
  "read_outcome en response =
     (case JSON_parse en response of
        Inl e \<Rightarrow> Inl e
      | Inr parsed \<Rightarrow>
          (case get_property parsed ''outcome'' of
             Inl e \<Rightarrow> Inl e
           | Inr oc \<Rightarrow>
               (case get_property parsed ''confidence'' of
                  Inl e \<Rightarrow> Inl e
                | Inr conf \<Rightarrow>
                    Inr \<lparr>o_outcome = oc,
                         o_confidence = (if truthy conf then conf else Val (JNum (1 / 2)))\<rparr>)))"

definition extractOutcome :: "env \<Rightarrow> BVADecisionDetail \<Rightarrow> world \<Rightarrow> OutcomeResult \<times> world" where
  "extractOutcome en decision w =
     (let textExcerpt = take 4000 (raw_text decision);
          prompt = outcome_prompt (citation_number decision) (s_date decision) textExcerpt;
          (response, w1) = generate en
             \<lparr>g_prompt = prompt, g_temperature = Some (1 / 10), g_responseFormat_json = True\<rparr> w
      in case response of
           Inl e \<Rightarrow> (unknown_outcome, w1)
         | Inr text \<Rightarrow>
             (case read_outcome en text of
                Inl e \<Rightarrow> (unknown_outcome, w1)
              | Inr r \<Rightarrow> (r, w1)))"

section \<open>The store (schema.ts)\<close>

text \<open>
  What the statement binds. A timestamp column is given
  \<^verbatim>\<open>Math.floor(date.getTime() / 1000)\<close>, which is \<^verbatim>\<open>NaN\<close> for an invalid date, and the
  driver refuses a number that is not finite. A text column takes a string and a real
  column a number as they are, \<^verbatim>\<open>null\<close> is NULL, and any other value is what
  \<open>coerce_text\<close> and \<open>coerce_real\<close> say.
\<close>

fun seconds :: "env \<Rightarrow> js_date \<Rightarrow> int option" where
  "seconds en (DateOf s) = map_option (\<lambda>ms. ms div 1000) (Date_parse en s)"
| "seconds en (ClockAt ms) = Some (int ms div 1000)"

fun bind_text :: "env \<Rightarrow> json \<Rightarrow> json option" where
  "bind_text en JNull = Some JNull"
| "bind_text en (JStr s) = Some (JStr s)"
| "bind_text en j = coerce_text en j"

fun bind_real :: "env \<Rightarrow> json \<Rightarrow> json option" where
  "bind_real en JNull = Some JNull"
| "bind_real en (JNum n) = Some (JNum n)"
| "bind_real en j = coerce_real en j"

definition unique_violation :: thrown where
  "unique_violation = JsError ''SQLITE_CONSTRAINT: UNIQUE constraint failed''"

definition bind_failure :: thrown where
  "bind_failure = JsError ''value cannot be passed as argument to the database''"

text \<open>
  The values of the insert, \<^verbatim>\<open>{...parsed, outcome, outcomeConfidence}\<close>, as the driver
  binds them, with \<open>None\<close> for a property that is \<^verbatim>\<open>undefined\<close> and so left out of
  the statement; \<open>Inl\<close> when the driver refuses one of them.
\<close>

record bound_values =
  b_parsed :: "int ParsedDecision"
  b_outcome :: "json option"
  b_confidence :: "json option"

definition bind_column :: "(json \<Rightarrow> json option) \<Rightarrow> jsval \<Rightarrow> (json option) option" where
  "bind_column f v =
     (case v of Undefined \<Rightarrow> Some None
      | Val j \<Rightarrow> (case f j of None \<Rightarrow> None | Some b \<Rightarrow> Some (Some b)))"

definition bind_values ::
  "env \<Rightarrow> js_date ParsedDecision \<Rightarrow> jsval \<Rightarrow> jsval \<Rightarrow> thrown + bound_values" where
  "bind_values en parsed oc conf =
     (case (seconds en (decisionDate parsed), seconds en (syncedAt parsed),
            seconds en (lastUpdated parsed),
            bind_column (bind_text en) oc, bind_column (bind_real en) conf) of
        (Some d, Some sy, Some lu, Some ob, Some cb) \<Rightarrow>
          Inr \<lparr>b_parsed =
                 \<lparr>row_id = row_id parsed,
                  citationNumber = citationNumber parsed,
                  bvaApiId = bvaApiId parsed,
                  decisionDate = d,
                  decisionType = decisionType parsed,
                  docketNumbers = docketNumbers parsed,
                  sourceUrl = sourceUrl parsed,
                  filename = filename parsed,
                  rawText = rawText parsed,
                  paragraphs = paragraphs parsed,
                  sections = sections parsed,
                  extractedData = extractedData parsed,
                  issues = issues parsed,
                  boardMemberName = boardMemberName parsed,
                  veteranName = veteranName parsed,
                  syncedAt = sy,
                  lastUpdated = lu,
                  indexed = indexed parsed,
                  embeddingGenerated = embeddingGenerated parsed\<rparr>,
               b_outcome = ob, b_confidence = cb\<rparr>
      | _ \<Rightarrow> Inl bind_failure)"

text \<open>
  The \<open>decisions\<close> table declares \<open>id\<close> its primary key and \<open>citation_number\<close> and
  \<open>bva_api_id\<close> unique. \<open>insert_decision\<close> is
  \<^verbatim>\<open>db.insert(decisions).values(v).onConflictDoUpdate({target: citationNumber, set: u})\<close>
  with \<open>u\<close> the values \<open>v\<close> and \<^verbatim>\<open>lastUpdated: new Date()\<close>: the statement fails when a
  value cannot be bound; otherwise a row with the citation number of \<open>v\<close> is updated
  from \<open>u\<close>, or else \<open>v\<close> is inserted, and either fails when the row written would
  share its \<open>id\<close> or its \<open>bva_api_id\<close> with another row. A column left out of the
  statement is NULL in an inserted row and keeps its value in an updated one;
  \<open>outcome_details\<close> is in neither \<open>v\<close> nor \<open>u\<close>. Reads do not fail.
\<close>

definition inserted_row :: "bound_values \<Rightarrow> int NewDecision" where
  "inserted_row b =
     ParsedDecision.extend (b_parsed b)
       (NewDecision.fields
          (case b_outcome b of None \<Rightarrow> JNull | Some j \<Rightarrow> j)
          JNull
          (case b_confidence b of None \<Rightarrow> JNull | Some j \<Rightarrow> j))"

definition updated_row :: "int NewDecision \<Rightarrow> bound_values \<Rightarrow> nat \<Rightarrow> int NewDecision" where
  "updated_row old b now =
     ParsedDecision.extend ((b_parsed b)\<lparr>lastUpdated := int now div 1000\<rparr>)
       (NewDecision.fields
          (case b_outcome b of None \<Rightarrow> outcome old | Some j \<Rightarrow> j)
          (outcomeDetails old)
          (case b_confidence b of None \<Rightarrow> outcomeConfidence old | Some j \<Rightarrow> j))"

definition insert_decision ::
  "env \<Rightarrow> js_date ParsedDecision \<Rightarrow> jsval \<Rightarrow> jsval \<Rightarrow> nat \<Rightarrow> int NewDecision list \<Rightarrow>
   thrown + int NewDecision list" where
  "insert_decision en parsed oc conf now rows =
     (case bind_values en parsed oc conf of
        Inl e \<Rightarrow> Inl e
      | Inr b \<Rightarrow>
          if \<exists>x \<in> set rows. citationNumber x = citationNumber parsed
          then (if \<exists>x \<in> set rows. citationNumber x \<noteq> citationNumber parsed \<and>
                     (row_id x = row_id parsed \<or> bvaApiId x = bvaApiId parsed)
                then Inl unique_violation
                else Inr (map (\<lambda>x. if citationNumber x = citationNumber parsed
                                    then updated_row x b now else x) rows))
          else (if \<exists>x \<in> set rows. row_id x = row_id parsed \<or> bvaApiId x = bvaApiId parsed
                then Inl unique_violation
                else Inr (rows @ [inserted_row b])))"

text \<open>\<^verbatim>\<open>db.query.decisions.findFirst({where: eq(decisions.citationNumber, c)})\<close>\<close>

definition findFirst :: "string \<Rightarrow> world \<Rightarrow> int NewDecision option \<times> world" where
  "findFirst c w = (find (\<lambda>x. citationNumber x = c) (decisions_tbl w), effect (EvFindFirst c) w)"

section \<open>Sync service (sync.ts)\<close>

record SyncError =
  decisionId :: string
  e_citationNumber :: string
  e_error :: string

record SyncResult =
  total :: nat
  synced :: nat
  skipped :: nat
  errors :: "SyncError list"
  startTime :: nat
  endTime :: "nat option"
  duration :: "int option"

record SyncOptions =
  query :: "string option"
  startYear :: "int option"
  endYear :: "int option"
  decisionType_opt :: "decision_type_filter option"
  maxDecisions :: "js_number option"
  skipExisting :: "bool option"
  extractOutcomes :: "bool option"

record run_state =
  result :: SyncResult
  decisionsProcessed :: nat
  world_of :: world

datatype item_outcome = ItemSkipped | ItemSynced

text \<open>
  The body of the per-item \<^verbatim>\<open>try\<close> block: \<open>Inl\<close> is what it throws into the
  \<^verbatim>\<open>catch\<close>, \<open>ItemSkipped\<close> is the \<^verbatim>\<open>continue\<close> of the skip-existing branch.
\<close>

definition sync_item_try ::
  "env \<Rightarrow> SyncOptions \<Rightarrow> unit BVADecisionSummary_scheme \<Rightarrow> world \<Rightarrow> (thrown + item_outcome) \<times> world" where
  "sync_item_try en options summary w0 =
     (let (existing, w1) =
            (if skipExisting options = Some True then findFirst (citation_number summary) w0
             else (None, w0))
      in if existing \<noteq> None then (Inr ItemSkipped, w1)
         else (case getDecision en (citation_number summary) w1 of
                 (Inl e, w2) \<Rightarrow> (Inl e, w2)
               | (Inr detail, w2) \<Rightarrow>
                   (let (parsed, w3) = parseBVADecision en detail w2;
                        (r, w4) = (if extractOutcomes options \<noteq> Some False
                                   then extractOutcome en detail w3
                                   else (\<lparr>o_outcome = Val JNull, o_confidence = Val JNull\<rparr>, w3));
                        (now, w5) = new_Date en w4;
                        w6 = effect (EvInsertDecision (citationNumber parsed)) w5
                    in case insert_decision en parsed (o_outcome r) (o_confidence r) now
                              (decisions_tbl w6) of
                         Inl e \<Rightarrow> (Inl e, w6)
                       | Inr rows \<Rightarrow> (Inr ItemSynced, w6\<lparr>decisions_tbl := rows\<rparr>))))"

text \<open>
  One iteration of the inner loop past the ceiling check: \<open>total++\<close>, the \<^verbatim>\<open>try\<close>
  block, its \<^verbatim>\<open>catch\<close>, and the 100 ms pause that the \<^verbatim>\<open>continue\<close> skips.
\<close>

definition sync_item ::
  "env \<Rightarrow> SyncOptions \<Rightarrow> unit BVADecisionSummary_scheme \<Rightarrow> run_state \<Rightarrow> run_state" where
  "sync_item en options summary st =
     (let res = (result st)\<lparr>total := total (result st) + 1\<rparr> in
      case sync_item_try en options summary (world_of st) of
        (Inr ItemSkipped, w1) \<Rightarrow>
          st\<lparr>result := res\<lparr>skipped := skipped res + 1\<rparr>, world_of := w1\<rparr>
      | (Inr ItemSynced, w1) \<Rightarrow>
          st\<lparr>result := res\<lparr>synced := synced res + 1\<rparr>,
             decisionsProcessed := decisionsProcessed st + 1,
             world_of := sleep 100 w1\<rparr>
      | (Inl e, w1) \<Rightarrow>
          st\<lparr>result := res\<lparr>errors := errors res @
                   [\<lparr>decisionId = s_id summary,
                     e_citationNumber = citation_number summary,
                     e_error = message_or_unknown e\<rparr>]\<rparr>,
             world_of := sleep 100 w1\<rparr>)"

text \<open>The inner \<^verbatim>\<open>for (const summary of batch)\<close>, with its \<^verbatim>\<open>break\<close> at the ceiling.\<close>

fun sync_batch ::
  "env \<Rightarrow> SyncOptions \<Rightarrow> js_number \<Rightarrow> unit BVADecisionSummary_scheme list \<Rightarrow> run_state \<Rightarrow>
   run_state" where
  "sync_batch en options maxD [] st = st"
| "sync_batch en options maxD (summary # rest) st =
     (if count_ge (decisionsProcessed st) maxD then st
      else sync_batch en options maxD rest (sync_item en options summary st))"

text \<open>
  The outer \<^verbatim>\<open>for await\<close>: a batch from the generator, the inner loop, and the
  \<^verbatim>\<open>break\<close> that ends the generator once the ceiling is reached. The first component
  of the answer is what the generator threw, if it did.
\<close>

fun sync_pages ::
  "nat \<Rightarrow> env \<Rightarrow> SyncOptions \<Rightarrow> js_number \<Rightarrow> SearchParams \<Rightarrow> gen_point \<Rightarrow> run_state \<Rightarrow>
   (thrown option \<times> run_state) option" where
  "sync_pages 0 en options maxD params pt st = None"
| "sync_pages (Suc fuel) en options maxD params pt st =
     (case generator_next fuel en params pt (world_of st) of
        None \<Rightarrow> None
      | Some (Threw e, w1) \<Rightarrow> Some (Some e, st\<lparr>world_of := w1\<rparr>)
      | Some (Returned, w1) \<Rightarrow> Some (None, st\<lparr>world_of := w1\<rparr>)
      | Some (Yielded batch pt1, w1) \<Rightarrow>
          (let st1 = sync_batch en options maxD batch (st\<lparr>world_of := w1\<rparr>) in
           if count_ge (decisionsProcessed st1) maxD then Some (None, st1)
           else sync_pages fuel en options maxD params pt1 st1))"

definition digit_char :: "nat \<Rightarrow> char" where
  "digit_char d = ''0123456789'' ! d"

fun show_digits :: "nat \<Rightarrow> nat \<Rightarrow> string" where
  "show_digits 0 n = []"
| "show_digits (Suc k) n =
     (if n < 10 then [digit_char n]
      else show_digits k (n div 10) @ [digit_char (n mod 10)])"

text \<open>The decimal numeral of a number, as a template literal prints it.\<close>

definition show_nat :: "nat \<Rightarrow> string" where
  "show_nat n = show_digits (Suc n) n"

fun join :: "string \<Rightarrow> string list \<Rightarrow> string" where
  "join sep [] = []"
| "join sep [x] = x"
| "join sep (x # y # ys) = x @ sep @ join sep (y # ys)"

definition sync_status :: "SyncResult \<Rightarrow> string" where
  "sync_status res = (if length (errors res) > 0 then ''completed_with_errors'' else ''completed'')"

definition errorSummary :: "SyncResult \<Rightarrow> string option" where
  "errorSummary res =
     (if length (errors res) > 0
      then Some (show_nat (length (errors res)) @ '' errors: '' @
                 join '', '' (map e_citationNumber (take 3 (errors res))))
      else None)"

text \<open>\<^verbatim>\<open>result.endTime || new Date()\<close>, evaluated where it is written.\<close>

definition endTime_or_now :: "env \<Rightarrow> SyncResult \<Rightarrow> world \<Rightarrow> nat \<times> world" where
  "endTime_or_now en res w = (case endTime res of Some t \<Rightarrow> (t, w) | None \<Rightarrow> new_Date en w)"

text \<open>
  The \<open>sync_metadata\<close> table has the primary key \<open>id\<close> and no other constraint. The
  values to insert and the values to set are two object literals, each with its own
  \<^verbatim>\<open>result.endTime || new Date()\<close>; \<open>last_sync_date\<close> is a timestamp column and
  holds the date in whole seconds.
\<close>

definition updateSyncMetadata :: "env \<Rightarrow> SyncResult \<Rightarrow> world \<Rightarrow> world" where
  "updateSyncMetadata en res w =
     (let (d1, w1) = endTime_or_now en res w;
          (d2, w2) = endTime_or_now en res w1;
          w3 = effect EvInsertMetadata w2
      in w3\<lparr>sync_metadata_tbl :=
            (if \<exists>x \<in> set (sync_metadata_tbl w3). m_id x = ''latest''
             then map (\<lambda>x. if m_id x = ''latest''
                            then x\<lparr>lastSyncDate := int d2 div 1000,
                                   totalDecisions := synced res,
                                   lastSyncStatus := sync_status res,
                                   lastSyncError := errorSummary res\<rparr>
                            else x) (sync_metadata_tbl w3)
             else sync_metadata_tbl w3 @
                    [\<lparr>m_id = ''latest'',
                      lastSyncDate = int d1 div 1000,
                      totalDecisions = synced res,
                      lastSyncStatus = sync_status res,
                      lastSyncError = errorSummary res\<rparr>])\<rparr>)"

text \<open>
  \<^verbatim>\<open>options.maxDecisions || 100\<close>: an absent ceiling, a ceiling of 0 and a ceiling of
  \<^verbatim>\<open>NaN\<close> are 100.
\<close>

definition effective_maxDecisions :: "SyncOptions \<Rightarrow> js_number" where
  "effective_maxDecisions options =
     (case maxDecisions options of
        None \<Rightarrow> Finite 100
      | Some m \<Rightarrow> if falsy_number m then Finite 100 else m)"

definition search_params_of :: "SyncOptions \<Rightarrow> SearchParams" where
  "search_params_of options =
     \<lparr>sp_query = (case query options of
                    None \<Rightarrow> ''veteran''
                  | Some q \<Rightarrow> if q = [] then ''veteran'' else q),
      sp_decision_type = (case decisionType_opt options of
                            None \<Rightarrow> Some FilterAll
                          | Some t \<Rightarrow> Some t),
      sp_start_year = startYear options,
      sp_end_year = endYear options,
      sp_sort = Some DateDesc,
      sp_offset = None,
      sp_limit = None\<rparr>"

text \<open>
  \<open>syncDecisions\<close>: \<open>Inr\<close> is the result returned, \<open>Inl\<close> the exception rethrown by
  the outer \<^verbatim>\<open>catch\<close> after the timing fields are set.
\<close>

definition syncDecisions ::
  "nat \<Rightarrow> env \<Rightarrow> SyncOptions \<Rightarrow> world \<Rightarrow> ((thrown + SyncResult) \<times> world) option" where
  "syncDecisions fuel en options w0 =
     (let (start, w1) = new_Date en w0;
          result0 = \<lparr>total = 0, synced = 0, skipped = 0, errors = [],
                     startTime = start, endTime = None, duration = None\<rparr>
      in case sync_pages fuel en options (effective_maxDecisions options)
                (search_params_of options) AtStart
                \<lparr>result = result0, decisionsProcessed = 0, world_of = w1\<rparr> of
           None \<Rightarrow> None
         | Some (Some e, st) \<Rightarrow>
             (let (end_time, w2) = new_Date en (world_of st) in Some (Inl e, w2))
         | Some (None, st) \<Rightarrow>
             (let w2 = updateSyncMetadata en (result st) (world_of st);
                  (end_time, w3) = new_Date en w2
              in Some (Inr ((result st)\<lparr>endTime := Some end_time,
                                         duration := Some (int end_time - int start)\<rparr>), w3)))"

section \<open>Simulated upstreams\<close>

text \<open>
  The environments the concrete runs below use. \<open>sim_search\<close> serves a fixed list of
  matches page by page, reading \<open>offset\<close> and \<open>limit\<close> from the query; \<open>has_more\<close>
  says whether matches remain past the page. \<open>paged_search\<close> serves given pages, one
  for each hundred of the offset, however short they are. The clock advances one second
  per tick and every UUID is new.
\<close>

definition query_number :: "(string \<times> qval) list \<Rightarrow> string \<Rightarrow> nat \<Rightarrow> nat" where
  "query_number qp k dflt = (case map_of qp k of Some (QNumber n) \<Rightarrow> nat n | _ \<Rightarrow> dflt)"

definition sim_search ::
  "unit BVADecisionSummary_scheme list \<Rightarrow> (string \<times> qval) list \<Rightarrow> SearchResult fetch_outcome" where
  "sim_search items qp =
     (let off = query_number qp ''offset'' 0;
          lim = query_number qp ''limit'' 20;
          page = take lim (drop off items)
      in Response 200 ''OK''
           (JsonData \<lparr>r_offset = int off, r_limit = int lim,
                      has_more = (off + lim < length items),
                      r_count = int (length page), r_decisions = page\<rparr>))"

definition paged_search ::
  "unit BVADecisionSummary_scheme list list \<Rightarrow> (string \<times> qval) list \<Rightarrow>
   SearchResult fetch_outcome" where
  "paged_search pages qp =
     (let off = query_number qp ''offset'' 0;
          lim = query_number qp ''limit'' 20;
          page = (if off div 100 < length pages then pages ! (off div 100) else [])
      in Response 200 ''OK''
           (JsonData \<lparr>r_offset = int off, r_limit = int lim,
                      has_more = (off div 100 + 1 < length pages),
                      r_count = int (length page), r_decisions = page\<rparr>))"

fun summary_date :: "string \<Rightarrow> string" where
  "summary_date c = (if c = ''23-0003'' then ''not-a-date'' else ''2023-01-15'')"

definition summary_of :: "string \<Rightarrow> BVADecisionSummary" where
  "summary_of c =
     \<lparr>s_id = ''id-'' @ c, citation_number = c, s_date = summary_date c, s_type = AMA,
      docket_numbers = [''20-12 345''], s_url = ''https://bva.example/'' @ c\<rparr>"

definition detail_of :: "string \<Rightarrow> BVADecisionDetail" where
  "detail_of c =
     BVADecisionSummary.extend (summary_of c)
       (BVADecisionDetail.fields
          [\<lparr>p_section = Some ''Findings of Fact'', p_text = ''The veteran served.'', p_order = 0\<rparr>,
           \<lparr>p_section = None, p_text = ''Signed.'', p_order = 1\<rparr>]
          (''Decision '' @ c) (c @ ''.txt'') ''2023-01-16'' ''2023-01-17'')"

definition found :: "string \<Rightarrow> BVADecisionDetail fetch_outcome" where
  "found c = Response 200 ''OK'' (JsonData (detail_of c))"

definition granted_json :: string where
  "granted_json = concat [''{'', dq, ''outcome'', dq, '':'', dq, ''Granted'', dq, '','',
                          dq, ''confidence'', dq, '':0.9}'']"

text \<open>
  Stand-ins for \<open>JSON.parse\<close> and \<open>Date.parse\<close> that agree with them on the texts
  the runs below use; the first throws a SyntaxError and the second answers \<^verbatim>\<open>NaN\<close> on
  every other text. The stand-in driver stores a boolean as 0 or 1, a number in a text
  column as it is, and refuses arrays and objects.
\<close>

definition toy_JSON_parse :: "string \<Rightarrow> thrown + json" where
  "toy_JSON_parse s =
     (if s = granted_json
      then Inr (JObj [(''outcome'', JStr ''Granted''), (''confidence'', JNum (9 / 10))])
      else if s = ''{}'' then Inr (JObj [])
      else if s = ''null'' then Inr JNull
      else Inl (JsError ''Unexpected token''))"

definition toy_Date_parse :: "string \<Rightarrow> int option" where
  "toy_Date_parse s =
     (if s = ''2023-01-15'' then Some 1673740800000
      else if s = ''2023-01-16'' then Some 1673827200000
      else if s = ''2023-01-17'' then Some 1673913600000
      else None)"

fun toy_coerce :: "json \<Rightarrow> json option" where
  "toy_coerce (JBool b) = Some (JNum (if b then 1 else 0))"
| "toy_coerce (JArr xs) = None"
| "toy_coerce (JObj kvs) = None"
| "toy_coerce j = Some j"

definition sim_env ::
  "((string \<times> qval) list \<Rightarrow> SearchResult fetch_outcome) \<Rightarrow>
   (string \<Rightarrow> BVADecisionDetail fetch_outcome) \<Rightarrow> (thrown + string option) \<Rightarrow> env" where
  "sim_env search details answer =
     \<lparr>fetch_search = (\<lambda>t qp. search qp),
      fetch_decision = (\<lambda>t c. details c),
      chat_completion = (\<lambda>t options. answer),
      JSON_parse = toy_JSON_parse,
      Date_parse = toy_Date_parse,
      coerce_text = toy_coerce,
      coerce_real = toy_coerce,
      clock = (\<lambda>t. 1000 * t),
      randomUUID = (\<lambda>t. ''uuid-'' @ show_nat t)\<rparr>"

definition empty_world :: world where
  "empty_world = \<lparr>decisions_tbl = [], sync_metadata_tbl = [], tick = 0, trace = []\<rparr>"

definition default_options :: SyncOptions where
  "default_options =
     \<lparr>query = None, startYear = None, endYear = None, decisionType_opt = None,
      maxDecisions = None, skipExisting = None, extractOutcomes = None\<rparr>"

definition outage_env :: env where
  "outage_env =
     (sim_env (sim_search [])
        (\<lambda>c. if c = ''23-0001'' then FetchThrows (JsError ''fetch failed'')
             else if c = ''23-0002'' then Response 404 ''Not Found'' (JsonThrows NonError)
             else Response 503 ''Service Unavailable'' (JsonThrows NonError))
        (Inr None))
     \<lparr>fetch_search :=
        (\<lambda>t qp. if map_of qp ''query'' = Some (QText ''down'')
                then FetchThrows (JsError ''fetch failed'')
                else Response 500 ''Internal Server Error'' (JsonThrows NonError))\<rparr>"

definition query_only :: "string \<Rightarrow> SearchParams" where
  "query_only q =
     \<lparr>sp_query = q, sp_decision_type = None, sp_start_year = None, sp_end_year = None,
      sp_sort = None, sp_offset = None, sp_limit = None\<rparr>"

text \<open>
  The upstream of the partial-failure scenario: two pages of two matches. The detail
  request for 23-0002 answers 500, and the detail of 23-0003 carries a date that does not
  parse, so that its upsert fails.
\<close>

definition flaky_details :: "string \<Rightarrow> BVADecisionDetail fetch_outcome" where
  "flaky_details c =
     (if c = ''23-0002'' then Response 500 ''Internal Server Error'' (JsonThrows NonError)
      else found c)"

definition flaky_env :: env where
  "flaky_env =
     sim_env (paged_search [map summary_of [''23-0001'', ''23-0002''],
                            map summary_of [''23-0003'', ''23-0004'']])
       flaky_details (Inr None)"

definition no_outcomes :: SyncOptions where
  "no_outcomes = default_options\<lparr>extractOutcomes := Some False\<rparr>"

definition fresh_state :: "world \<Rightarrow> run_state" where
  "fresh_state w =
     \<lparr>result = \<lparr>total = 0, synced = 0, skipped = 0, errors = [],
                 startTime = 0, endTime = None, duration = None\<rparr>,
      decisionsProcessed = 0, world_of = w\<rparr>"

text \<open>A store that already holds citation 23-0001.\<close>

definition seeded_row :: "int NewDecision" where
  "seeded_row =
     inserted_row
       \<lparr>b_parsed =
          \<lparr>row_id = ''uuid-0'', citationNumber = ''23-0001'', bvaApiId = ''id-23-0001'',
           decisionDate = 1673740800, decisionType = AMA, docketNumbers = [''20-12 345''],
           sourceUrl = ''https://bva.example/23-0001'', filename = ''23-0001.txt'',
           rawText = ''Decision 23-0001'', paragraphs = d_paragraphs (detail_of ''23-0001''),
           sections = organize_sections (d_paragraphs (detail_of ''23-0001'')),
           extractedData = JNull, issues = JNull, boardMemberName = JNull,
           veteranName = JNull, syncedAt = 1, lastUpdated = 1673913600, indexed = False,
           embeddingGenerated = False\<rparr>,
        b_outcome = Some JNull, b_confidence = Some JNull\<rparr>"

definition seeded_world :: world where
  "seeded_world = empty_world\<lparr>decisions_tbl := [seeded_row]\<rparr>"

section \<open>Reading a trace\<close>

fun is_detail_fetch :: "event \<Rightarrow> bool" where
  "is_detail_fetch (EvGetDecision c) = True"
| "is_detail_fetch ev = False"

fun is_search :: "event \<Rightarrow> bool" where
  "is_search (EvSearch qp) = True"
| "is_search ev = False"

text \<open>An upstream whose search endpoint answers every request with a page.\<close>

definition search_never_fails :: "env \<Rightarrow> bool" where
  "search_never_fails en =
     (\<forall>t qp. \<exists>r. searchDecisions_result (fetch_search en t qp) = Inr r)"

text \<open>An upstream whose search endpoint answers a request the same at all times.\<close>

definition time_independent_search :: "env \<Rightarrow> bool" where
  "time_independent_search en = (\<forall>t t' qp. fetch_search en t qp = fetch_search en t' qp)"

text \<open>
  The counters of a run agree: every item counted in \<open>total\<close> is counted once more,
  as synced, skipped or failed, and the ceiling counter is the number of synced items.
\<close>

definition counted :: "run_state \<Rightarrow> bool" where
  "counted st =
     (total (result st) = synced (result st) + skipped (result st) + length (errors (result st))
      \<and> decisionsProcessed st = synced (result st))"

section \<open>Fetch client: error conditions\<close>

lemma network_error_plain:
  "\<not> is_BVAApiError e \<Longrightarrow>
   network_error e = BVAApiError (''Network error: '' @ message_or_unknown e) 0"
  by (simp add: network_error_def)

lemma network_error_api [simp]: "network_error (BVAApiError m c) = BVAApiError m c"
  by (simp add: network_error_def)

text \<open>
  Claim C8. When the transport fails (\<open>fetch\<close> throws something that is not a
  \<open>BVAApiError\<close>), \<open>getDecision\<close> and \<open>searchDecisions\<close> throw a \<open>BVAApiError\<close> of
  status 0. On a response of status 404 \<open>getDecision\<close> throws the not-found error,
  \<open>BVAApiError\<close> with status 404 and the message naming the citation. On any other
  response outside 200 to 299 both throw a \<open>BVAApiError\<close> that carries the
  upstream status.
\<close>

theorem client_error_conditions:
  "(fetch_decision en (tick w) c1 = FetchThrows e1 \<and> \<not> is_BVAApiError e1 \<longrightarrow>
      fst (getDecision en c1 w) =
        Inl (BVAApiError (''Network error: '' @ message_or_unknown e1) 0))
 \<and> (fetch_search en (tick w) (queryParams p1) = FetchThrows e2 \<and> \<not> is_BVAApiError e2 \<longrightarrow>
      fst (searchDecisions en p1 w) =
        Inl (BVAApiError (''Network error: '' @ message_or_unknown e2) 0))
 \<and> (fetch_decision en (tick w) c2 = Response 404 text2 body2 \<longrightarrow>
      fst (getDecision en c2 w) = Inl (BVAApiError (''Decision not found: '' @ c2) 404))
 \<and> (fetch_decision en (tick w) c3 = Response status3 text3 body3 \<and>
      \<not> response_ok status3 \<and> status3 \<noteq> 404 \<longrightarrow>
      fst (getDecision en c3 w) = Inl (BVAApiError (''API error: '' @ text3) status3))
 \<and> (fetch_search en (tick w) (queryParams p2) = Response status4 text4 body4 \<and>
      \<not> response_ok status4 \<longrightarrow>
      fst (searchDecisions en p2 w) = Inl (BVAApiError (''API error: '' @ text4) status4))"
  by (simp add: getDecision_def getDecision_result_def searchDecisions_def
        searchDecisions_result_def network_error_plain response_ok_def)

theorem client_error_conditions_witness:
  "fetch_decision outage_env (tick empty_world) ''23-0001'' = FetchThrows (JsError ''fetch failed'')
 \<and> fst (getDecision outage_env ''23-0001'' empty_world) =
      Inl (BVAApiError ''Network error: fetch failed'' 0)
 \<and> fetch_search outage_env (tick empty_world) (queryParams (query_only ''down'')) =
      FetchThrows (JsError ''fetch failed'')
 \<and> fst (searchDecisions outage_env (query_only ''down'') empty_world) =
      Inl (BVAApiError ''Network error: fetch failed'' 0)
 \<and> fst (getDecision outage_env ''23-0002'' empty_world) =
      Inl (BVAApiError ''Decision not found: 23-0002'' 404)
 \<and> \<not> response_ok 503
 \<and> fst (getDecision outage_env ''23-0003'' empty_world) =
      Inl (BVAApiError ''API error: Service Unavailable'' 503)
 \<and> \<not> response_ok 500
 \<and> fst (searchDecisions outage_env (query_only ''veteran'') empty_world) =
      Inl (BVAApiError ''API error: Internal Server Error'' 500)"
  using client_error_conditions [of outage_env empty_world "''23-0001''" "JsError ''fetch failed''"
      "query_only ''down''" "JsError ''fetch failed''" "''23-0002''" "''Not Found''"
      "JsonThrows NonError" "''23-0003''" 503 "''Service Unavailable''" "JsonThrows NonError"
      "query_only ''veteran''" 500 "''Internal Server Error''" "JsonThrows NonError"]
  by (simp add: outage_env_def sim_env_def empty_world_def query_only_def queryParams_def
        response_ok_def)

section \<open>What each step leaves alone\<close>

lemma effect_sel [simp]:
  "decisions_tbl (effect e w) = decisions_tbl w"
  "sync_metadata_tbl (effect e w) = sync_metadata_tbl w"
  "tick (effect e w) = Suc (tick w)"
  "trace (effect e w) = trace w @ [e]"
  by (simp_all add: effect_def)

lemma sleep_sel [simp]:
  "decisions_tbl (sleep ms w) = decisions_tbl w"
  "sync_metadata_tbl (sleep ms w) = sync_metadata_tbl w"
  "tick (sleep ms w) = Suc (tick w)"
  "trace (sleep ms w) = trace w @ [EvDelay ms]"
  by (simp_all add: sleep_def)

lemma new_Date_sel [simp]:
  "fst (new_Date en w) = clock en (tick w)"
  "decisions_tbl (snd (new_Date en w)) = decisions_tbl w"
  "sync_metadata_tbl (snd (new_Date en w)) = sync_metadata_tbl w"
  "tick (snd (new_Date en w)) = Suc (tick w)"
  "trace (snd (new_Date en w)) = trace w"
  by (simp_all add: new_Date_def)

lemma getDecision_snd [simp]: "snd (getDecision en c w) = effect (EvGetDecision c) w"
  by (simp add: getDecision_def)

lemma searchDecisions_snd [simp]:
  "snd (searchDecisions en p w) = effect (EvSearch (queryParams p)) w"
  by (simp add: searchDecisions_def)

lemma searchDecisions_fst:
  "fst (searchDecisions en p w) = searchDecisions_result (fetch_search en (tick w) (queryParams p))"
  by (simp add: searchDecisions_def)

lemma findFirst_snd [simp]: "snd (findFirst c w) = effect (EvFindFirst c) w"
  by (simp add: findFirst_def)

lemma parseBVADecision_snd [simp]:
  "decisions_tbl (snd (parseBVADecision en d w)) = decisions_tbl w"
  "sync_metadata_tbl (snd (parseBVADecision en d w)) = sync_metadata_tbl w"
  "tick (snd (parseBVADecision en d w)) = Suc (Suc (tick w))"
  "trace (snd (parseBVADecision en d w)) = trace w"
  by (simp_all add: parseBVADecision_def new_Date_def Let_def)

lemma generate_snd [simp]:
  "snd (generate en options w) = effect (EvGenerate (g_prompt options)) w"
  by (simp add: generate_def)

lemma extractOutcome_snd [simp]:
  "decisions_tbl (snd (extractOutcome en d w)) = decisions_tbl w"
  "sync_metadata_tbl (snd (extractOutcome en d w)) = sync_metadata_tbl w"
  "tick (snd (extractOutcome en d w)) = Suc (tick w)"
  by (simp_all add: extractOutcome_def Let_def split_beta split: sum.splits)

lemma sync_item_try_metadata [simp]:
  "sync_metadata_tbl (snd (sync_item_try en options s w)) = sync_metadata_tbl w"
  by (simp add: sync_item_try_def Let_def split_beta split: sum.splits)

text \<open>The counters of one item: it is counted once, as skipped, synced or failed.\<close>

lemma sync_item_counters:
  "total (result (sync_item en options s st)) = Suc (total (result st))"
  "synced (result (sync_item en options s st)) + skipped (result (sync_item en options s st))
     + length (errors (result (sync_item en options s st)))
   = Suc (synced (result st) + skipped (result st) + length (errors (result st)))"
  "decisionsProcessed (sync_item en options s st) - decisionsProcessed st
   = synced (result (sync_item en options s st)) - synced (result st)"
  "decisionsProcessed st \<le> decisionsProcessed (sync_item en options s st)"
  "decisionsProcessed (sync_item en options s st) \<le> Suc (decisionsProcessed st)"
  "synced (result st) \<le> synced (result (sync_item en options s st))"
  "endTime (result (sync_item en options s st)) = endTime (result st)"
  "startTime (result (sync_item en options s st)) = startTime (result st)"
  "sync_metadata_tbl (world_of (sync_item en options s st)) = sync_metadata_tbl (world_of st)"
  by (simp_all add: sync_item_def Let_def split_beta split: sum.splits item_outcome.splits)

section \<open>The ceiling option\<close>

lemma sync_item_try_maxDecisions [simp]:
  "sync_item_try en (options\<lparr>maxDecisions := m\<rparr>) = sync_item_try en options"
  by (rule ext)+ (simp add: sync_item_try_def cong: prod.case_cong sum.case_cong if_cong)

lemma sync_item_maxDecisions [simp]:
  "sync_item en (options\<lparr>maxDecisions := m\<rparr>) = sync_item en options"
  by (rule ext)+ (simp add: sync_item_def cong: prod.case_cong sum.case_cong if_cong)

lemma sync_batch_maxDecisions [simp]:
  "sync_batch en (options\<lparr>maxDecisions := m\<rparr>) maxD batch st =
   sync_batch en options maxD batch st"
  by (induction batch arbitrary: st) simp_all

lemma sync_pages_maxDecisions [simp]:
  "sync_pages fuel en (options\<lparr>maxDecisions := m\<rparr>) maxD params pt st =
   sync_pages fuel en options maxD params pt st"
  by (induction fuel arbitrary: pt st)
     (simp_all add: Let_def split: option.splits prod.splits gen_step.splits)

lemma search_params_of_maxDecisions [simp]:
  "search_params_of (options\<lparr>maxDecisions := m\<rparr>) = search_params_of options"
  by (simp add: search_params_of_def)

lemma falsy_ceiling:
  "falsy_number m \<Longrightarrow> effective_maxDecisions (options\<lparr>maxDecisions := Some m\<rparr>) = Finite 100"
  by (simp add: effective_maxDecisions_def)

lemma falsy_ceiling_run:
  "falsy_number m \<Longrightarrow>
   syncDecisions fuel en (options\<lparr>maxDecisions := Some m\<rparr>) w =
   syncDecisions fuel en (options\<lparr>maxDecisions := Some (Finite 100)\<rparr>) w"
  by (simp add: syncDecisions_def effective_maxDecisions_def)

text \<open>
  The inner loop counts every item it reaches, and it reaches the items of the batch
  until \<open>M\<close> of them have been synced.
\<close>

lemma sync_batch_total_mono:
  "total (result st) \<le> total (result (sync_batch en options maxD batch st))"
proof (induction batch arbitrary: st)
  case Nil
  then show ?case by simp
next
  case (Cons s batch)
  show ?case
    using Cons.IH [of "sync_item en options s st"]
    by (simp add: sync_item_counters(1))
qed

lemma reach_arith:
  fixes t d M n T d1 :: nat
  assumes "Suc t + min n (M - d1) \<le> T" and "d1 \<le> Suc d" and "\<not> M \<le> d"
  shows "t + min (Suc n) (M - d) \<le> T"
  using assms by arith

lemma sync_batch_total_reaches:
  "total (result st) + min (length batch) (M - decisionsProcessed st)
   \<le> total (result (sync_batch en options (Finite (of_nat M)) batch st))"
proof (induction batch arbitrary: st)
  case Nil
  then show ?case by simp
next
  case (Cons s batch)
  show ?case
  proof (cases "decisionsProcessed st \<ge> M")
    case True
    then show ?thesis by simp
  next
    case False
    have "total (result (sync_item en options s st))
            + min (length batch) (M - decisionsProcessed (sync_item en options s st))
          \<le> total (result (sync_batch en options (Finite (of_nat M)) batch
                 (sync_item en options s st)))"
      by (rule Cons.IH)
    moreover have "decisionsProcessed (sync_item en options s st) \<le> Suc (decisionsProcessed st)"
      by (rule sync_item_counters(5))
    moreover have "total (result (sync_item en options s st)) = Suc (total (result st))"
      by (rule sync_item_counters(1))
    ultimately have "total (result st) + min (Suc (length batch)) (M - decisionsProcessed st)
          \<le> total (result (sync_batch en options (Finite (of_nat M)) batch
                 (sync_item en options s st)))"
      using False reach_arith by metis
    then show ?thesis
      using False by simp
  qed
qed

lemma sync_pages_total_mono:
  "sync_pages fuel en options maxD params pt st = Some (e, st') \<Longrightarrow>
   total (result st) \<le> total (result st')"
proof (induction fuel arbitrary: pt st)
  case 0
  then show ?case by simp
next
  case (Suc fuel)
  show ?case
  proof (cases "generator_next fuel en params pt (world_of st)")
    case None
    then show ?thesis using Suc.prems by simp
  next
    case (Some gw)
    obtain g w1 where gw: "gw = (g, w1)" by (cases gw)
    show ?thesis
    proof (cases g)
      case (Yielded batch pt1)
      let ?st1 = "sync_batch en options maxD batch (st\<lparr>world_of := w1\<rparr>)"
      have m: "total (result st) \<le> total (result ?st1)"
        using sync_batch_total_mono [of "st\<lparr>world_of := w1\<rparr>" en options maxD batch] by simp
      show ?thesis
      proof (cases "count_ge (decisionsProcessed ?st1) maxD")
        case True
        then show ?thesis using Suc.prems Some gw Yielded m by (simp add: Let_def)
      next
        case False
        then have "sync_pages fuel en options maxD params pt1 ?st1 = Some (e, st')"
          using Suc.prems Some gw Yielded by (simp add: Let_def)
        from Suc.IH [OF this] m show ?thesis by simp
      qed
    next
      case Returned
      then show ?thesis using Suc.prems Some gw by auto
    next
      case (Threw x)
      then show ?thesis using Suc.prems Some gw by auto
    qed
  qed
qed

lemma syncDecisions_result:
  assumes "syncDecisions fuel en options w0 = Some (Inr r, w1)"
  shows "\<exists>st. sync_pages fuel en options (effective_maxDecisions options)
              (search_params_of options) AtStart
              \<lparr>result = \<lparr>total = 0, synced = 0, skipped = 0, errors = [],
                          startTime = clock en (tick w0), endTime = None, duration = None\<rparr>,
               decisionsProcessed = 0, world_of = w0\<lparr>tick := Suc (tick w0)\<rparr>\<rparr> = Some (None, st)
      \<and> r = (result st)\<lparr>endTime :=
                 Some (clock en (tick (updateSyncMetadata en (result st) (world_of st)))),
               duration :=
                 Some (int (clock en (tick (updateSyncMetadata en (result st) (world_of st))))
                       - int (clock en (tick w0)))\<rparr>
      \<and> w1 = (updateSyncMetadata en (result st) (world_of st))
               \<lparr>tick := Suc (tick (updateSyncMetadata en (result st) (world_of st)))\<rparr>"
proof -
  let ?st0 = "\<lparr>result = \<lparr>total = 0, synced = 0, skipped = 0, errors = [],
                          startTime = clock en (tick w0), endTime = None, duration = None\<rparr>,
               decisionsProcessed = 0, world_of = w0\<lparr>tick := Suc (tick w0)\<rparr>\<rparr>"
  let ?p = "sync_pages fuel en options (effective_maxDecisions options)
              (search_params_of options) AtStart ?st0"
  show ?thesis
  proof (cases ?p)
    case None
    then show ?thesis using assms by (simp add: syncDecisions_def new_Date_def)
  next
    case (Some a)
    obtain e st where a: "a = (e, st)" by (cases a)
    show ?thesis
    proof (cases e)
      case None
      then show ?thesis using assms Some a
        by (auto simp: syncDecisions_def new_Date_def Let_def)
    next
      case (Some x)
      then show ?thesis using assms \<open>?p = Some a\<close> a
        by (simp add: syncDecisions_def new_Date_def)
    qed
  qed
qed

text \<open>
  Claim C10. A run asked for a falsy ceiling (0, \<^verbatim>\<open>NaN\<close>, or none at all) is the run
  with the ceiling 100: \<^verbatim>\<open>options.maxDecisions || 100\<close> replaces the value by the
  default. Such a run does not process nothing: when the first search request is
  answered by a page, a run that returns has counted every item of that page, up to
  100 of them.
\<close>

theorem maxDecisions_zero_is_default:
  "syncDecisions fuel en (options\<lparr>maxDecisions := Some (Finite 0)\<rparr>) w =
     syncDecisions fuel en (options\<lparr>maxDecisions := Some (Finite 100)\<rparr>) w
 \<and> syncDecisions fuel en (options\<lparr>maxDecisions := Some NaN\<rparr>) w =
     syncDecisions fuel en (options\<lparr>maxDecisions := Some (Finite 100)\<rparr>) w
 \<and> syncDecisions fuel en (options\<lparr>maxDecisions := None\<rparr>) w =
     syncDecisions fuel en (options\<lparr>maxDecisions := Some (Finite 100)\<rparr>) w
 \<and> effective_maxDecisions (options\<lparr>maxDecisions := Some (Finite 0)\<rparr>) = Finite 100
 \<and> (falsy_number m \<and>
      searchDecisions_result (fetch_search en (Suc (tick w))
        (queryParams ((search_params_of options)\<lparr>sp_offset := Some 0, sp_limit := Some 100\<rparr>)))
        = Inr page \<and>
      syncDecisions fuel en (options\<lparr>maxDecisions := Some m\<rparr>) w = Some (Inr r, w')
      \<longrightarrow> min (length (r_decisions page)) 100 \<le> total r)"
proof (intro conjI impI)
  show "syncDecisions fuel en (options\<lparr>maxDecisions := Some (Finite 0)\<rparr>) w =
     syncDecisions fuel en (options\<lparr>maxDecisions := Some (Finite 100)\<rparr>) w"
    by (rule falsy_ceiling_run) simp
  show "syncDecisions fuel en (options\<lparr>maxDecisions := Some NaN\<rparr>) w =
     syncDecisions fuel en (options\<lparr>maxDecisions := Some (Finite 100)\<rparr>) w"
    by (rule falsy_ceiling_run) simp
  show "syncDecisions fuel en (options\<lparr>maxDecisions := None\<rparr>) w =
     syncDecisions fuel en (options\<lparr>maxDecisions := Some (Finite 100)\<rparr>) w"
    by (simp add: syncDecisions_def effective_maxDecisions_def)
  show "effective_maxDecisions (options\<lparr>maxDecisions := Some (Finite 0)\<rparr>) = Finite 100"
    by (simp add: effective_maxDecisions_def)
next
  assume a: "falsy_number m \<and>
      searchDecisions_result (fetch_search en (Suc (tick w))
        (queryParams ((search_params_of options)\<lparr>sp_offset := Some 0, sp_limit := Some 100\<rparr>)))
        = Inr page \<and>
      syncDecisions fuel en (options\<lparr>maxDecisions := Some m\<rparr>) w = Some (Inr r, w')"
  let ?st0 = "\<lparr>result = \<lparr>total = 0, synced = 0, skipped = 0, errors = [],
                          startTime = clock en (tick w), endTime = None, duration = None\<rparr>,
               decisionsProcessed = 0, world_of = w\<lparr>tick := Suc (tick w)\<rparr>\<rparr>"
  let ?params = "search_params_of options"
  let ?w1 = "effect (EvSearch (queryParams (?params\<lparr>sp_offset := Some 0, sp_limit := Some 100\<rparr>)))
               (w\<lparr>tick := Suc (tick w)\<rparr>)"
  from a have m: "falsy_number m" by simp
  from a syncDecisions_result [of fuel en "options\<lparr>maxDecisions := Some m\<rparr>" w r w']
  obtain st where
    pages: "sync_pages fuel en options (Finite 100) ?params AtStart ?st0 = Some (None, st)"
    and r: "total r = total (result st)"
    by (auto simp: falsy_ceiling [OF m])
  from pages obtain f where f: "fuel = Suc f" by (cases fuel) auto
  have s: "searchDecisions en (?params\<lparr>sp_offset := Some 0, sp_limit := Some 100\<rparr>)
             (w\<lparr>tick := Suc (tick w)\<rparr>) = (Inr page, ?w1)"
    using a by (simp add: searchDecisions_def)
  show "min (length (r_decisions page)) 100 \<le> total r"
  proof (cases "r_decisions page = []")
    case True
    then show ?thesis by simp
  next
    case False
    from pages f obtain f' where f': "f = Suc f'"
      by (cases f) (auto split: option.splits)
    have g: "generator_next f en ?params AtStart (w\<lparr>tick := Suc (tick w)\<rparr>) =
               Some (Yielded (r_decisions page) (AtYield 0 (has_more page)), ?w1)"
      using s False by (simp add: f')
    let ?st1 = "sync_batch en options (Finite 100) (r_decisions page) (?st0\<lparr>world_of := ?w1\<rparr>)"
    have t: "min (length (r_decisions page)) 100 \<le> total (result ?st1)"
      using sync_batch_total_reaches [of "?st0\<lparr>world_of := ?w1\<rparr>" "r_decisions page" 100 en options]
      by simp
    show ?thesis
    proof (cases "count_ge (decisionsProcessed ?st1) (Finite 100)")
      case True
      then have "st = ?st1" using pages f g by (simp add: Let_def)
      then show ?thesis using t r by simp
    next
      case False
      then have "sync_pages f en options (Finite 100) ?params (AtYield 0 (has_more page)) ?st1
                   = Some (None, st)"
        using pages f g by (simp add: Let_def)
      from sync_pages_total_mono [OF this] t r show ?thesis by simp
    qed
  qed
qed

section \<open>Concrete runs\<close>

lemma summary_of_sel [simp]:
  "citation_number (summary_of c) = c" "s_id (summary_of c) = ''id-'' @ c"
  "s_date (summary_of c) = summary_date c"
  by (simp_all add: summary_of_def)

lemma detail_of_sel [simp]:
  "citation_number (detail_of c) = c" "s_id (detail_of c) = ''id-'' @ c"
  "s_date (detail_of c) = summary_date c" "updated_at (detail_of c) = ''2023-01-17''"
  by (simp_all add: detail_of_def summary_of_def BVADecisionSummary.extend_def
        BVADecisionDetail.fields_def)

lemmas run_defs = syncDecisions_def sync_item_def sync_item_try_def getDecision_def
  getDecision_result_def searchDecisions_def searchDecisions_result_def queryParams_def
  effect_def sleep_def new_Date_def parseBVADecision_def insert_decision_def bind_values_def
  bind_column_def inserted_row_def updated_row_def findFirst_def updateSyncMetadata_def
  endTime_or_now_def sync_status_def errorSummary_def effective_maxDecisions_def
  search_params_of_def network_error_def response_ok_def sim_env_def paged_search_def
  toy_Date_parse_def bind_failure_def query_number_def found_def empty_world_def
  default_options_def show_nat_def digit_char_def ParsedDecision.extend_def
  NewDecision.fields_def Let_def

text \<open>
  The run over the two-page upstream: the detail request of 23-0002 and the upsert of
  23-0003 fail, the other two decisions are stored, and the second page is requested
  after the failure on the first.
\<close>

lemma flaky_run:
  "(case syncDecisions (Suc (Suc (Suc 0))) flaky_env no_outcomes empty_world of
      Some (Inr r, w) \<Rightarrow>
        total r = 4 \<and> synced r = 2 \<and> skipped r = 0 \<and>
        errors r = [\<lparr>decisionId = ''id-23-0002'', e_citationNumber = ''23-0002'',
                     e_error = ''API error: Internal Server Error''\<rparr>,
                    \<lparr>decisionId = ''id-23-0003'', e_citationNumber = ''23-0003'',
                     e_error = ''value cannot be passed as argument to the database''\<rparr>] \<and>
        endTime r = Some 27000 \<and>
        map citationNumber (decisions_tbl w) = [''23-0001'', ''23-0004''] \<and>
        sync_metadata_tbl w =
          [\<lparr>m_id = ''latest'', lastSyncDate = 24, totalDecisions = 2,
            lastSyncStatus = ''completed_with_errors'',
            lastSyncError = Some ''2 errors: 23-0002, 23-0003''\<rparr>] \<and>
        filter is_detail_fetch (trace w) =
          [EvGetDecision ''23-0001'', EvGetDecision ''23-0002'',
           EvGetDecision ''23-0003'', EvGetDecision ''23-0004''] \<and>
        length (filter is_search (trace w)) = 2
    | _ \<Rightarrow> False)"
  by (simp add: flaky_env_def flaky_details_def no_outcomes_def run_defs
        cong: let_weak_cong prod.case_cong_weak)

section \<open>Skipping what is stored\<close>

lemma find_None_iff_ex: "(find P xs = None) = (\<not> (\<exists>x \<in> set xs. P x))"
  by (induction xs) auto

lemma sync_item_try_skip:
  assumes "skipExisting options = Some True"
    and "\<exists>x \<in> set (decisions_tbl w). citationNumber x = citation_number summary"
  shows "sync_item_try en options summary w =
           (Inr ItemSkipped, effect (EvFindFirst (citation_number summary)) w)"
  using assms by (simp add: sync_item_try_def findFirst_def find_None_iff_ex)

text \<open>
  Claim C7. With \<open>skipExisting\<close> on, an item whose citation number is already in the
  store costs one lookup and nothing else: the lookup is the only event of the item (no
  detail fetch, no classification call, no write), the store is unchanged, \<open>skipped\<close>
  and \<open>total\<close> go up by one, and neither \<open>synced\<close> nor the error list changes.
\<close>

theorem skip_existing_item:
  assumes "skipExisting options = Some True"
    and "\<exists>x \<in> set (decisions_tbl (world_of st)). citationNumber x = citation_number summary"
  shows "sync_item en options summary st =
           st\<lparr>result := (result st)\<lparr>total := total (result st) + 1,
                                     skipped := skipped (result st) + 1\<rparr>,
              world_of := effect (EvFindFirst (citation_number summary)) (world_of st)\<rparr>
       \<and> trace (world_of (sync_item en options summary st)) =
           trace (world_of st) @ [EvFindFirst (citation_number summary)]
       \<and> decisions_tbl (world_of (sync_item en options summary st)) = decisions_tbl (world_of st)
       \<and> skipped (result (sync_item en options summary st)) = skipped (result st) + 1
       \<and> synced (result (sync_item en options summary st)) = synced (result st)
       \<and> errors (result (sync_item en options summary st)) = errors (result st)"
  using assms by (simp add: sync_item_def sync_item_try_skip effect_def)

theorem skip_existing_item_witness:
  "skipExisting (default_options\<lparr>skipExisting := Some True\<rparr>) = Some True
 \<and> map citationNumber (decisions_tbl seeded_world) = [''23-0001'']
 \<and> skipped (result (sync_item flaky_env (default_options\<lparr>skipExisting := Some True\<rparr>)
        (summary_of ''23-0001'') (fresh_state seeded_world))) = 1
 \<and> trace (world_of (sync_item flaky_env (default_options\<lparr>skipExisting := Some True\<rparr>)
        (summary_of ''23-0001'') (fresh_state seeded_world))) = [EvFindFirst ''23-0001'']
 \<and> decisions_tbl (world_of (sync_item flaky_env (default_options\<lparr>skipExisting := Some True\<rparr>)
        (summary_of ''23-0001'') (fresh_state seeded_world))) = decisions_tbl seeded_world"
proof -
  have c: "map citationNumber (decisions_tbl seeded_world) = [''23-0001'']"
    by (simp add: seeded_world_def seeded_row_def empty_world_def
          inserted_row_def ParsedDecision.extend_def NewDecision.fields_def)
  have h: "\<exists>x \<in> set (decisions_tbl (world_of (fresh_state seeded_world))).
             citationNumber x = citation_number (summary_of ''23-0001'')"
    using c by (cases "decisions_tbl seeded_world") (auto simp: fresh_state_def)
  have o: "skipExisting (default_options\<lparr>skipExisting := Some True\<rparr>) = Some True"
    by simp
  show ?thesis
    using skip_existing_item [OF o h, of flaky_env] c
    by (simp add: fresh_state_def effect_def seeded_world_def empty_world_def)
qed

section \<open>Failures stay with their item\<close>

lemma sync_item_try_throws:
  assumes "fst (sync_item_try en options summary w) = Inl e"
  shows "decisions_tbl (snd (sync_item_try en options summary w)) = decisions_tbl w
       \<and> (\<exists>evs. trace (snd (sync_item_try en options summary w)) = trace w @ evs \<and>
           filter is_detail_fetch evs = [EvGetDecision (citation_number summary)])"
  using assms
  by (auto simp: sync_item_try_def findFirst_def getDecision_def parseBVADecision_def
        extractOutcome_def generate_def new_Date_def effect_def Let_def
      split: if_splits prod.splits sum.splits option.splits)

lemma sync_item_throws:
  assumes "fst (sync_item_try en options summary (world_of st)) = Inl e"
  shows "sync_item en options summary st =
           st\<lparr>result := (result st)\<lparr>total := total (result st) + 1,
                  errors := errors (result st) @
                    [\<lparr>decisionId = s_id summary, e_citationNumber = citation_number summary,
                      e_error = message_or_unknown e\<rparr>]\<rparr>,
              world_of := sleep 100 (snd (sync_item_try en options summary (world_of st)))\<rparr>"
  using assms by (cases "sync_item_try en options summary (world_of st)") (simp add: sync_item_def)

text \<open>Only the search request can make the run throw.\<close>

lemma fetch_loop_no_throw:
  "search_never_fails en \<Longrightarrow> fetch_loop fuel en params off w \<noteq> Some (Threw e, w')"
proof (induction fuel arbitrary: off w)
  case 0
  then show ?case by simp
next
  case (Suc fuel)
  from Suc.prems obtain r where
    "searchDecisions_result (fetch_search en (tick w)
        (queryParams (params\<lparr>sp_offset := Some off, sp_limit := Some 100\<rparr>))) = Inr r"
    unfolding search_never_fails_def by blast
  then show ?case using Suc.IH [OF Suc.prems] by (simp add: searchDecisions_def)
qed

lemma generator_next_no_throw:
  "search_never_fails en \<Longrightarrow> generator_next fuel en params pt w \<noteq> Some (Threw e, w')"
  by (cases pt) (simp_all add: fetch_loop_no_throw)

lemma sync_pages_no_throw:
  "search_never_fails en \<Longrightarrow> sync_pages fuel en options maxD params pt st \<noteq> Some (Some e, st')"
proof (induction fuel arbitrary: pt st)
  case 0
  then show ?case by simp
next
  case (Suc fuel)
  show ?case
    using Suc.IH [OF Suc.prems] generator_next_no_throw [OF Suc.prems]
    by (auto simp: Let_def split: option.splits prod.splits gen_step.splits)
qed

lemma syncDecisions_no_throw:
  "search_never_fails en \<Longrightarrow> syncDecisions fuel en options w \<noteq> Some (Inl e, w')"
  using sync_pages_no_throw [of en]
  by (auto simp: syncDecisions_def Let_def split: option.splits prod.splits)

text \<open>
  What the generator yields depends on the answers of the search endpoint alone: when
  these do not change with time, neither the fuel nor the work done between two requests
  changes the batches.
\<close>

lemma fetch_loop_det:
  assumes "time_independent_search en"
    and "fetch_loop f1 en params off w = Some (g1, w1)"
    and "fetch_loop f2 en params off w' = Some (g2, w2)"
  shows "g1 = g2"
  using assms(2,3)
proof (induction f1 arbitrary: f2 off w w')
  case 0
  then show ?case by simp
next
  case (Suc f1)
  from Suc.prems(2) obtain f where f2: "f2 = Suc f" by (cases f2) auto
  let ?p = "params\<lparr>sp_offset := Some off, sp_limit := Some 100\<rparr>"
  have same: "fst (searchDecisions en ?p w) = fst (searchDecisions en ?p w')"
    using assms(1) unfolding time_independent_search_def searchDecisions_fst by metis
  show ?case
  proof (cases "fst (searchDecisions en ?p w)")
    case (Inl e)
    then show ?thesis
      using Suc.prems same unfolding f2
      by (cases "searchDecisions en ?p w"; cases "searchDecisions en ?p w'") auto
  next
    case (Inr r)
    show ?thesis
    proof (cases "r_decisions r = [] \<and> has_more r")
      case True
      then have a: "fetch_loop f1 en params (off + 100) (sleep 500 (snd (searchDecisions en ?p w)))
                  = Some (g1, w1)"
        using Suc.prems(1) Inr by (cases "searchDecisions en ?p w") auto
      from True have b: "fetch_loop f en params (off + 100) (sleep 500 (snd (searchDecisions en ?p w')))
                  = Some (g2, w2)"
        using Suc.prems(2) Inr same unfolding f2 by (cases "searchDecisions en ?p w'") auto
      from Suc.IH [OF a b] show ?thesis .
    next
      case False
      then show ?thesis
        using Suc.prems Inr same unfolding f2
        by (cases "searchDecisions en ?p w"; cases "searchDecisions en ?p w'")
           (auto split: if_splits)
    qed
  qed
qed

lemma generator_next_det:
  assumes "time_independent_search en"
    and "generator_next f1 en params pt w = Some (g1, w1)"
    and "generator_next f2 en params pt w' = Some (g2, w2)"
  shows "g1 = g2"
proof (cases pt)
  case AtStart
  then show ?thesis using assms fetch_loop_det by simp
next
  case (AtYield off more)
  then show ?thesis
    using assms fetch_loop_det [OF assms(1), of f1 params "off + 100" "sleep 500 w" g1 w1 f2
        "sleep 500 w'" g2 w2]
    by (cases more) auto
qed

text \<open>A batch and a run that end below the ceiling have counted every item.\<close>

lemma sync_batch_all:
  "\<not> count_ge (decisionsProcessed (sync_batch en options maxD batch st)) maxD \<Longrightarrow>
   total (result (sync_batch en options maxD batch st)) = total (result st) + length batch"
proof (induction batch arbitrary: st)
  case Nil
  then show ?case by simp
next
  case (Cons s batch)
  from Cons.prems have n: "\<not> count_ge (decisionsProcessed st) maxD"
    by (cases "count_ge (decisionsProcessed st) maxD") auto
  then have "\<not> count_ge (decisionsProcessed (sync_batch en options maxD batch
                 (sync_item en options s st))) maxD"
    using Cons.prems by simp
  from Cons.IH [OF this] n show ?case
    by (simp add: sync_item_counters(1))
qed

lemma sync_pages_all:
  assumes "time_independent_search en"
  shows "fetchAllDecisions f1 en params pt w = Some (Inr batches, w1) \<Longrightarrow>
     sync_pages f2 en options maxD params pt st = Some (None, st') \<Longrightarrow>
     \<not> count_ge (decisionsProcessed st') maxD \<Longrightarrow>
     total (result st') = total (result st) + length (concat batches)"
proof (induction f1 arbitrary: f2 pt w st batches)
  case 0
  then show ?case by simp
next
  case (Suc f1)
  from Suc.prems(2) obtain f where f2: "f2 = Suc f" by (cases f2) auto
  from Suc.prems(1) obtain g wa where ga: "generator_next f1 en params pt w = Some (g, wa)"
    by (cases "generator_next f1 en params pt w") auto
  from Suc.prems(2) obtain g' wb where
    gb: "generator_next f en params pt (world_of st) = Some (g', wb)"
    unfolding f2 by (cases "generator_next f en params pt (world_of st)") auto
  have gg: "g' = g"
    using generator_next_det [OF assms ga gb] by simp
  show ?case
  proof (cases g)
    case (Yielded batch pt1)
    let ?st1 = "sync_batch en options maxD batch (st\<lparr>world_of := wb\<rparr>)"
    from Suc.prems(1) ga Yielded obtain bs where
      fa: "fetchAllDecisions f1 en params pt1 wa = Some (Inr bs, w1)"
      and bs: "batches = batch # bs"
      by (auto split: option.splits sum.splits)
    have below: "\<not> count_ge (decisionsProcessed ?st1) maxD"
    proof
      assume "count_ge (decisionsProcessed ?st1) maxD"
      then have "st' = ?st1"
        using Suc.prems(2) gb gg Yielded unfolding f2 by (simp add: Let_def)
      then show False
        using Suc.prems(3) \<open>count_ge (decisionsProcessed ?st1) maxD\<close> by simp
    qed
    then have sp: "sync_pages f en options maxD params pt1 ?st1 = Some (None, st')"
      using Suc.prems(2) gb gg Yielded unfolding f2 by (simp add: Let_def)
    have "total (result st') = total (result ?st1) + length (concat bs)"
      by (rule Suc.IH [OF fa sp Suc.prems(3)])
    moreover have "total (result ?st1) = total (result st) + length batch"
      using sync_batch_all [OF below] by simp
    ultimately show ?thesis
      by (simp add: bs)
  next
    case Returned
    then show ?thesis
      using Suc.prems(1,2) ga gb gg unfolding f2 by auto
  next
    case (Threw x)
    then show ?thesis
      using Suc.prems(1) ga by auto
  qed
qed

text \<open>Every item counted is counted once more: as synced, as skipped or as an error.\<close>

lemma sync_item_counted: "counted st \<Longrightarrow> counted (sync_item en options s st)"
  unfolding counted_def
  by (simp add: sync_item_def Let_def split_beta split: sum.splits item_outcome.splits)

lemma sync_batch_counted: "counted st \<Longrightarrow> counted (sync_batch en options maxD batch st)"
  by (induction batch arbitrary: st) (simp_all add: sync_item_counted)

lemma counted_world [simp]: "counted (st\<lparr>world_of := w\<rparr>) = counted st"
  by (simp add: counted_def)

lemma sync_pages_counted:
  "counted st \<Longrightarrow> sync_pages fuel en options maxD params pt st = Some (e, st') \<Longrightarrow> counted st'"
proof (induction fuel arbitrary: pt st)
  case 0
  then show ?case by simp
next
  case (Suc fuel)
  show ?case
  proof (cases "generator_next fuel en params pt (world_of st)")
    case None
    then show ?thesis using Suc.prems by simp
  next
    case (Some gw)
    obtain g w1 where gw: "gw = (g, w1)" by (cases gw)
    show ?thesis
    proof (cases g)
      case (Yielded batch pt1)
      let ?st1 = "sync_batch en options maxD batch (st\<lparr>world_of := w1\<rparr>)"
      have c: "counted ?st1"
        using Suc.prems(1) by (simp add: sync_batch_counted)
      show ?thesis
      proof (cases "count_ge (decisionsProcessed ?st1) maxD")
        case True
        then show ?thesis using Suc.prems Some gw Yielded c by (simp add: Let_def)
      next
        case False
        then have "sync_pages fuel en options maxD params pt1 ?st1 = Some (e, st')"
          using Suc.prems Some gw Yielded by (simp add: Let_def)
        from Suc.IH [OF c this] show ?thesis .
      qed
    next
      case Returned
      then show ?thesis using Suc.prems Some gw by auto
    next
      case (Threw x)
      then show ?thesis using Suc.prems Some gw by auto
    qed
  qed
qed

text \<open>
  Claim C4. When the \<^verbatim>\<open>try\<close> block of an item throws, in the detail request, the
  parse, the classification or the upsert, the item gets exactly one entry in the error
  list, with its id, its citation number and the message; \<open>total\<close> counts it and no
  other counter moves; nothing is written; its detail is requested once and not again;
  the inner loop goes on with the rest of the batch, under a ceiling check that the
  failure has not changed. A run that returns has counted each item once, as synced,
  skipped or failed, and, when the search endpoint answers the same at all times and the
  ceiling is not reached, it has counted every item of every page the generator yields,
  whichever of them failed. A run throws only when a search request fails.
\<close>

theorem partial_failure_isolation:
  "(fst (sync_item_try en options summary (world_of st)) = Inl e \<longrightarrow>
      errors (result (sync_item en options summary st)) =
        errors (result st) @
          [\<lparr>decisionId = s_id summary, e_citationNumber = citation_number summary,
            e_error = message_or_unknown e\<rparr>]
    \<and> total (result (sync_item en options summary st)) = total (result st) + 1
    \<and> synced (result (sync_item en options summary st)) = synced (result st)
    \<and> skipped (result (sync_item en options summary st)) = skipped (result st)
    \<and> decisionsProcessed (sync_item en options summary st) = decisionsProcessed st
    \<and> decisions_tbl (world_of (sync_item en options summary st)) = decisions_tbl (world_of st)
    \<and> (\<exists>evs. trace (world_of (sync_item en options summary st)) = trace (world_of st) @ evs \<and>
          filter is_detail_fetch evs = [EvGetDecision (citation_number summary)])
    \<and> (\<not> count_ge (decisionsProcessed st) maxD \<longrightarrow>
          sync_batch en options maxD (summary # rest) st =
            sync_batch en options maxD rest (sync_item en options summary st)
        \<and> \<not> count_ge (decisionsProcessed (sync_item en options summary st)) maxD))
 \<and> (syncDecisions fuel en options w = Some (Inr r, w') \<longrightarrow>
      total r = synced r + skipped r + length (errors r)
    \<and> (time_independent_search en
        \<and> \<not> count_ge (synced r) (effective_maxDecisions options)
        \<and> fetchAllDecisions fuel' en (search_params_of options) AtStart w0
            = Some (Inr batches, w0') \<longrightarrow>
          total r = length (concat batches)))
 \<and> (search_never_fails en \<longrightarrow> syncDecisions fuel en options w \<noteq> Some (Inl e', w''))"
proof (intro conjI impI)
  assume a: "fst (sync_item_try en options summary (world_of st)) = Inl e"
  note eq = sync_item_throws [OF a]
  note fr = sync_item_try_throws [OF a]
  show "errors (result (sync_item en options summary st)) =
        errors (result st) @
          [\<lparr>decisionId = s_id summary, e_citationNumber = citation_number summary,
            e_error = message_or_unknown e\<rparr>]"
    by (simp add: eq)
  show "total (result (sync_item en options summary st)) = total (result st) + 1"
    by (simp add: eq)
  show "synced (result (sync_item en options summary st)) = synced (result st)"
    by (simp add: eq)
  show "skipped (result (sync_item en options summary st)) = skipped (result st)"
    by (simp add: eq)
  show dp: "decisionsProcessed (sync_item en options summary st) = decisionsProcessed st"
    by (simp add: eq)
  show "decisions_tbl (world_of (sync_item en options summary st)) = decisions_tbl (world_of st)"
    using fr by (simp add: eq)
  from fr obtain evs where
    evs: "trace (snd (sync_item_try en options summary (world_of st))) = trace (world_of st) @ evs"
      "filter is_detail_fetch evs = [EvGetDecision (citation_number summary)]"
    by blast
  have "trace (world_of (sync_item en options summary st)) = trace (world_of st) @ (evs @ [EvDelay 100])"
    by (simp add: eq evs)
  moreover have "filter is_detail_fetch (evs @ [EvDelay 100]) = [EvGetDecision (citation_number summary)]"
    by (simp add: evs)
  ultimately show "\<exists>evs. trace (world_of (sync_item en options summary st)) = trace (world_of st) @ evs \<and>
          filter is_detail_fetch evs = [EvGetDecision (citation_number summary)]"
    by blast
  { assume n: "\<not> count_ge (decisionsProcessed st) maxD"
    then show "sync_batch en options maxD (summary # rest) st =
            sync_batch en options maxD rest (sync_item en options summary st)"
      by simp
    from n show "\<not> count_ge (decisionsProcessed (sync_item en options summary st)) maxD"
      by (simp add: dp) }
next
  assume run: "syncDecisions fuel en options w = Some (Inr r, w')"
  let ?st0 = "\<lparr>result = \<lparr>total = 0, synced = 0, skipped = 0, errors = [],
                          startTime = clock en (tick w), endTime = None, duration = None\<rparr>,
               decisionsProcessed = 0, world_of = w\<lparr>tick := Suc (tick w)\<rparr>\<rparr>"
  from syncDecisions_result [OF run] obtain st where
    pages: "sync_pages fuel en options (effective_maxDecisions options)
              (search_params_of options) AtStart ?st0 = Some (None, st)"
    and t: "total r = total (result st)" and s: "synced r = synced (result st)"
    and k: "skipped r = skipped (result st)" and er: "errors r = errors (result st)"
    by auto
  have "counted ?st0"
    by (simp add: counted_def)
  from sync_pages_counted [OF this pages] have c: "counted st" .
  then show "total r = synced r + skipped r + length (errors r)"
    by (simp add: counted_def t s k er)
  { assume h: "time_independent_search en
        \<and> \<not> count_ge (synced r) (effective_maxDecisions options)
        \<and> fetchAllDecisions fuel' en (search_params_of options) AtStart w0
            = Some (Inr batches, w0')"
    then have "\<not> count_ge (decisionsProcessed st) (effective_maxDecisions options)"
      using c by (simp add: counted_def s)
    from sync_pages_all [OF _ _ pages this, of fuel' w0 batches w0'] h
    show "total r = length (concat batches)"
      by (simp add: t) }
next
  assume "search_never_fails en"
  then show "syncDecisions fuel en options w \<noteq> Some (Inl e', w'')"
    by (rule syncDecisions_no_throw)
qed

section \<open>The scenario of the partial failure\<close>

lemma flaky_first_page:
  "searchDecisions_result (fetch_search flaky_env (Suc (tick empty_world))
      (queryParams ((search_params_of no_outcomes)\<lparr>sp_offset := Some 0, sp_limit := Some 100\<rparr>)))
   = Inr \<lparr>r_offset = 0, r_limit = 100, has_more = True, r_count = 2,
          r_decisions = map summary_of [''23-0001'', ''23-0002'']\<rparr>"
  by (simp add: flaky_env_def sim_env_def paged_search_def query_number_def queryParams_def
        search_params_of_def no_outcomes_def default_options_def searchDecisions_result_def
        response_ok_def Let_def)

lemma flaky_search_never_fails: "search_never_fails flaky_env"
  by (simp add: search_never_fails_def flaky_env_def sim_env_def paged_search_def
        searchDecisions_result_def response_ok_def Let_def)

lemma flaky_time_independent: "time_independent_search flaky_env"
  by (simp add: time_independent_search_def flaky_env_def sim_env_def)

lemma flaky_batches:
  "\<exists>w. fetchAllDecisions (Suc (Suc (Suc 0))) flaky_env (search_params_of no_outcomes) AtStart
         empty_world
       = Some (Inr [map summary_of [''23-0001'', ''23-0002''],
                    map summary_of [''23-0003'', ''23-0004'']], w)"
  by (simp add: flaky_env_def sim_env_def paged_search_def query_number_def queryParams_def
        search_params_of_def no_outcomes_def default_options_def searchDecisions_def
        searchDecisions_result_def response_ok_def Let_def)

lemma flaky_detail_fails:
  "fst (sync_item_try flaky_env no_outcomes (summary_of ''23-0002'')
         (world_of (fresh_state empty_world))) =
     Inl (BVAApiError ''API error: Internal Server Error'' 500)"
  by (simp add: sync_item_try_def no_outcomes_def default_options_def getDecision_def
        getDecision_result_def flaky_env_def sim_env_def flaky_details_def response_ok_def
        network_error_def fresh_state_def empty_world_def)

theorem maxDecisions_zero_is_default_witness:
  "falsy_number (Finite 0)
 \<and> (\<exists>page r w.
       searchDecisions_result (fetch_search flaky_env (Suc (tick empty_world))
         (queryParams ((search_params_of no_outcomes)\<lparr>sp_offset := Some 0, sp_limit := Some 100\<rparr>)))
         = Inr page
     \<and> length (r_decisions page) = 2
     \<and> syncDecisions (Suc (Suc (Suc 0))) flaky_env
          (no_outcomes\<lparr>maxDecisions := Some (Finite 0)\<rparr>) empty_world = Some (Inr r, w)
     \<and> min (length (r_decisions page)) 100 \<le> total r
     \<and> total r = 4 \<and> synced r = 2
     \<and> map citationNumber (decisions_tbl w) = [''23-0001'', ''23-0004''])"
proof -
  let ?F = "Suc (Suc (Suc 0))"
  let ?page = "\<lparr>r_offset = 0, r_limit = 100, has_more = True, r_count = 2,
          r_decisions = map summary_of [''23-0001'', ''23-0002'']\<rparr>"
  note inst = maxDecisions_zero_is_default [of ?F flaky_env no_outcomes empty_world "Finite 0" ?page]
  have n: "no_outcomes\<lparr>maxDecisions := None\<rparr> = no_outcomes"
    by (simp add: no_outcomes_def default_options_def)
  have same: "syncDecisions ?F flaky_env (no_outcomes\<lparr>maxDecisions := Some (Finite 0)\<rparr>) empty_world
            = syncDecisions ?F flaky_env no_outcomes empty_world"
    using inst n by simp
  from flaky_run obtain r w where
    run: "syncDecisions ?F flaky_env no_outcomes empty_world = Some (Inr r, w)"
    and vals: "total r = 4" "synced r = 2"
      "map citationNumber (decisions_tbl w) = [''23-0001'', ''23-0004'']"
    by (auto split: option.splits prod.splits sum.splits)
  have "min (length (r_decisions ?page)) 100 \<le> total r"
    using maxDecisions_zero_is_default [of ?F flaky_env no_outcomes empty_world "Finite 0" ?page r w]
      flaky_first_page run same by simp
  then show ?thesis
    using flaky_first_page run same vals by simp
qed

theorem partial_failure_isolation_witness:
  "fst (sync_item_try flaky_env no_outcomes (summary_of ''23-0002'')
         (world_of (fresh_state empty_world))) =
     Inl (BVAApiError ''API error: Internal Server Error'' 500)
 \<and> errors (result (sync_item flaky_env no_outcomes (summary_of ''23-0002'')
        (fresh_state empty_world))) =
     [\<lparr>decisionId = ''id-23-0002'', e_citationNumber = ''23-0002'',
       e_error = ''API error: Internal Server Error''\<rparr>]
 \<and> total (result (sync_item flaky_env no_outcomes (summary_of ''23-0002'')
        (fresh_state empty_world))) = 1
 \<and> \<not> count_ge (decisionsProcessed (fresh_state empty_world)) (Finite 100)
 \<and> sync_batch flaky_env no_outcomes (Finite 100)
      [summary_of ''23-0002'', summary_of ''23-0004''] (fresh_state empty_world) =
    sync_batch flaky_env no_outcomes (Finite 100) [summary_of ''23-0004'']
      (sync_item flaky_env no_outcomes (summary_of ''23-0002'') (fresh_state empty_world))
 \<and> search_never_fails flaky_env
 \<and> time_independent_search flaky_env
 \<and> (\<exists>r w batches w0.
       syncDecisions (Suc (Suc (Suc 0))) flaky_env no_outcomes empty_world = Some (Inr r, w)
     \<and> \<not> count_ge (synced r) (effective_maxDecisions no_outcomes)
     \<and> fetchAllDecisions (Suc (Suc (Suc 0))) flaky_env (search_params_of no_outcomes) AtStart
         empty_world = Some (Inr batches, w0)
     \<and> total r = length (concat batches)
     \<and> total r = synced r + skipped r + length (errors r)
     \<and> total r = 4 \<and> synced r = 2 \<and> skipped r = 0
     \<and> map e_citationNumber (errors r) = [''23-0002'', ''23-0003'']
     \<and> map citationNumber (decisions_tbl w) = [''23-0001'', ''23-0004'']
     \<and> filter is_detail_fetch (trace w) =
          [EvGetDecision ''23-0001'', EvGetDecision ''23-0002'',
           EvGetDecision ''23-0003'', EvGetDecision ''23-0004''])"
proof -
  let ?F = "Suc (Suc (Suc 0))"
  let ?bs = "[map summary_of [''23-0001'', ''23-0002''], map summary_of [''23-0003'', ''23-0004'']]"
  from flaky_run obtain r w where
    run: "syncDecisions ?F flaky_env no_outcomes empty_world = Some (Inr r, w)"
    and vals: "total r = 4" "synced r = 2" "skipped r = 0"
      "map e_citationNumber (errors r) = [''23-0002'', ''23-0003'']"
      "map citationNumber (decisions_tbl w) = [''23-0001'', ''23-0004'']"
      "filter is_detail_fetch (trace w) =
          [EvGetDecision ''23-0001'', EvGetDecision ''23-0002'',
           EvGetDecision ''23-0003'', EvGetDecision ''23-0004'']"
    by (auto split: option.splits prod.splits sum.splits)
  from flaky_batches obtain w0 where
    fa: "fetchAllDecisions ?F flaky_env (search_params_of no_outcomes) AtStart empty_world
           = Some (Inr ?bs, w0)"
    by blast
  have below: "\<not> count_ge (synced r) (effective_maxDecisions no_outcomes)"
    by (simp add: vals effective_maxDecisions_def no_outcomes_def default_options_def)
  have n: "\<not> count_ge (decisionsProcessed (fresh_state empty_world)) (Finite 100)"
    by (simp add: fresh_state_def)
  note inst = partial_failure_isolation [of flaky_env no_outcomes "summary_of ''23-0002''"
        "fresh_state empty_world" "BVAApiError ''API error: Internal Server Error'' 500"
        "Finite 100" "[summary_of ''23-0004'']" ?F empty_world r w ?F empty_world ?bs w0]
  have item:
    "errors (result (sync_item flaky_env no_outcomes (summary_of ''23-0002'')
        (fresh_state empty_world))) =
     [\<lparr>decisionId = ''id-23-0002'', e_citationNumber = ''23-0002'',
       e_error = ''API error: Internal Server Error''\<rparr>]"
    "total (result (sync_item flaky_env no_outcomes (summary_of ''23-0002'')
        (fresh_state empty_world))) = 1"
    "sync_batch flaky_env no_outcomes (Finite 100)
      [summary_of ''23-0002'', summary_of ''23-0004''] (fresh_state empty_world) =
    sync_batch flaky_env no_outcomes (Finite 100) [summary_of ''23-0004'']
      (sync_item flaky_env no_outcomes (summary_of ''23-0002'') (fresh_state empty_world))"
    using inst flaky_detail_fails n by (simp_all add: fresh_state_def)
  have runlevel: "total r = length (concat ?bs)" "total r = synced r + skipped r + length (errors r)"
    using inst run below fa flaky_time_independent by simp_all
  have ex: "\<exists>r w batches w0.
       syncDecisions (Suc (Suc (Suc 0))) flaky_env no_outcomes empty_world = Some (Inr r, w)
     \<and> \<not> count_ge (synced r) (effective_maxDecisions no_outcomes)
     \<and> fetchAllDecisions (Suc (Suc (Suc 0))) flaky_env (search_params_of no_outcomes) AtStart
         empty_world = Some (Inr batches, w0)
     \<and> total r = length (concat batches)
     \<and> total r = synced r + skipped r + length (errors r)
     \<and> total r = 4 \<and> synced r = 2 \<and> skipped r = 0
     \<and> map e_citationNumber (errors r) = [''23-0002'', ''23-0003'']
     \<and> map citationNumber (decisions_tbl w) = [''23-0001'', ''23-0004'']
     \<and> filter is_detail_fetch (trace w) =
          [EvGetDecision ''23-0001'', EvGetDecision ''23-0002'',
           EvGetDecision ''23-0003'', EvGetDecision ''23-0004'']"
    apply (rule exI [of _ r])
    apply (rule exI [of _ w])
    apply (rule exI [of _ "?bs"])
    apply (rule exI [of _ w0])
    apply (intro conjI)
    apply (rule run below fa runlevel vals)+
    done
  show ?thesis
    by (intro conjI)
       (rule flaky_detail_fails item n flaky_search_never_fails flaky_time_independent ex)+
qed

end
